theory Spec2Isabelle
  imports Complex_Main "HOL-Library.AList"
begin

section \<open>Values, renderers and effects\<close>

text \<open>
  A JavaScript number is modelled by the rational it denotes (NaN and the infinities are
  not modelled). The program never computes with a number except in \<open>printResult\<close>,
  where the floating-point product is taken as a parameter.
\<close>

type_synonym number = rat

text \<open>
  A thrown value is an \<open>Error\<close> object with its message. \<open>TypeError\<close> is what the
  engine throws when a property of \<open>undefined\<close> is read.
\<close>

datatype js_error = Error string | TypeError string

fun message :: "js_error \<Rightarrow> string" where
  "message (Error m) = m"
| "message (TypeError m) = m"

text \<open>
  The \<open>Renderer\<close> interface of \<open>../render\<close> has the methods \<open>emit\<close>, \<open>success\<close> and
  \<open>error\<close>; a call is recorded as a line. The one argument of every \<open>error\<close> call of
  the sources is \<open>error.message || error\<close>: the message when it is a non-empty string,
  the thrown object otherwise.
\<close>

datatype line = Emit "string list" | Success "string list" | Err "string + js_error"

definition error_arg :: "js_error \<Rightarrow> string + js_error" where
  "error_arg e = (if message e \<noteq> [] then Inl (message e) else Inr e)"

text \<open>
  What a command does to the outside world: a call on the renderer it was given, or a
  call \<open>writeFileSync path text\<close> that returned.
\<close>

datatype effect = Render line | WriteFile string string

text \<open>
  An asynchronous function is modelled by the effects it performs, in order, followed
  by the value it resolves with (\<open>Inr\<close>) or the error it throws (\<open>Inl\<close>).
\<close>

type_synonym 'a io = "effect list \<times> (js_error + 'a)"

definition io_return :: "'a \<Rightarrow> 'a io" where
  "io_return x = ([], Inr x)"

definition io_throw :: "js_error \<Rightarrow> 'a io" where
  "io_throw e = ([], Inl e)"

definition io_bind :: "'a io \<Rightarrow> ('a \<Rightarrow> 'b io) \<Rightarrow> 'b io" where
  "io_bind m f =
     (case m of
        (es, Inl e) \<Rightarrow> (es, Inl e)
      | (es, Inr x) \<Rightarrow> (case f x of (es', r) \<Rightarrow> (es @ es', r)))"

definition io_then :: "unit io \<Rightarrow> 'b io \<Rightarrow> 'b io" where
  "io_then m k = io_bind m (\<lambda>_. k)"

definition io_await :: "js_error + 'a \<Rightarrow> 'a io" where
  "io_await r = ([], r)"

definition emit :: "string list \<Rightarrow> unit io" where
  "emit msgs = ([Render (Emit msgs)], Inr ())"

definition success :: "string list \<Rightarrow> unit io" where
  "success msgs = ([Render (Success msgs)], Inr ())"

fun io_forEach :: "('a \<Rightarrow> unit io) \<Rightarrow> 'a list \<Rightarrow> unit io" where
  "io_forEach f [] = io_return ()"
| "io_forEach f (x # xs) = io_then (f x) (io_forEach f xs)"

definition throws :: "'a io \<Rightarrow> bool" where
  "throws m = (case snd m of Inl e \<Rightarrow> True | Inr x \<Rightarrow> False)"

definition rendered :: "effect list \<Rightarrow> line list" where
  "rendered es = concat (map (\<lambda>e. case e of Render l \<Rightarrow> [l] | WriteFile p t \<Rightarrow> []) es)"

definition written :: "effect list \<Rightarrow> (string \<times> string) list" where
  "written es = concat (map (\<lambda>e. case e of Render l \<Rightarrow> [] | WriteFile p t \<Rightarrow> [(p, t)]) es)"


text \<open>Template literals print a count in decimal.\<close>

fun digits :: "nat \<Rightarrow> string" where
  "digits n =
     (if n < 10 then [''0123456789'' ! n]
      else digits (n div 10) @ [''0123456789'' ! (n mod 10)])"

definition show_int :: "int \<Rightarrow> string" where
  "show_int i = (if i < 0 then CHR ''-'' # digits (nat (- i)) else digits (nat i))"

text \<open>\<open>pick\<close> of the pipeline: the value unless it is \<open>undefined\<close> or \<open>null\<close>.\<close>

definition pick :: "'a option \<Rightarrow> 'a \<Rightarrow> 'a" where
  "pick val defaultValue = (case val of Some v \<Rightarrow> v | None \<Rightarrow> defaultValue)"

section \<open>Schemas, documents and results of the core\<close>

datatype schema = GraphQLSchema string

datatype document_node = DocumentNode string

text \<open>A loaded document of graphql-config, and a \<open>Source\<close> of graphql (body, name).\<close>

record source =
  src_document :: document_node
  src_location :: string

datatype gsource = GSource string string

text \<open>A schema or document pointer of graphql-config: a string or a list of strings.\<close>

datatype pointer = Pointer string | Pointers "string list"

fun truthy_pointer :: "pointer option \<Rightarrow> bool" where
  "truthy_pointer None = False"
| "truthy_pointer (Some (Pointer s)) = (s \<noteq> [])"
| "truthy_pointer (Some (Pointers ss)) = True"

fun truthy_string :: "string option \<Rightarrow> bool" where
  "truthy_string None = False"
| "truthy_string (Some s) = (s \<noteq> [])"

text \<open>The options \<open>runValidate\<close> receives, and the ones it hands to the validator.\<close>

record validate_options =
  opt_deprecated :: bool
  opt_noStrictFragments :: bool
  opt_apollo :: "bool option"
  opt_keepClientFields :: "bool option"
  opt_maxDepth :: "number option"

record validator_options =
  strictFragments :: bool
  maxDepth :: "number option"
  apollo :: bool
  keepClientFields :: bool

record invalid_document =
  doc_source :: gsource
  doc_errors :: "string list"
  doc_deprecated :: "string list"

text \<open>The result of the similarity search of the core: per type name, its matches.\<close>

record rating =
  target_typeId :: string
  rating_value :: number

record best_match =
  bestMatch :: "rating option"
  ratings :: "rating list option"

type_synonym similar_map = "(string \<times> best_match) list"

record similar_record =
  rec_typename :: string
  rec_rating :: number

type_synonym similar_results = "(string \<times> similar_record list) list"

datatype style = Bold | BgBlueWhite | Grey

section \<open>The command model (\<open>config.ts\<close>)\<close>

text \<open>
  A JavaScript object whose keys are names is the association list of its own entries,
  in the order in which \<open>for ... in\<close> enumerates them, and its prototype. On an object
  that began as the literal \<open>{}\<close>, \<open>obj[key] = value\<close> replaces the value of a key the
  object has and appends a new key otherwise; for the key \<open>__proto__\<close> the assignment
  calls the setter of \<open>Object.prototype\<close> instead: the value, an object, becomes the
  prototype, and the object gets no entry. \<open>obj_set\<close> gives the own entries after the
  assignment and \<open>obj_prototype\<close> the prototype, \<open>None\<close> for \<open>Object.prototype\<close>, which
  has no enumerable key.
\<close>

definition obj_set :: "string \<Rightarrow> 'v \<Rightarrow> (string \<times> 'v) list \<Rightarrow> (string \<times> 'v) list" where
  "obj_set key v obj = (if key = ''__proto__'' then obj else AList.update key v obj)"

definition obj_prototype :: "string \<Rightarrow> 'v \<Rightarrow> 'v option \<Rightarrow> 'v option" where
  "obj_prototype key v proto = (if key = ''__proto__'' then Some v else proto)"

text \<open>
  \<open>for ... in\<close> enumerates the own entries of an object and then the enumerable entries
  of its prototype whose key the object does not have itself.
\<close>

definition for_in :: "(string \<times> 'v) list \<Rightarrow> (string \<times> 'v) list \<Rightarrow> (string \<times> 'v) list" where
  "for_in own inherited = own @ filter (\<lambda>(key, v). key \<notin> fst ` set own) inherited"

text \<open>
  A command of the configuration file: the fields of the four command interfaces, each
  absent (\<open>None\<close>) or present, and the tag \<open>command\<close>, which the configuration file may
  set to any string.
\<close>

record command =
  cmd_command :: "string option"
  cmd_schema :: "pointer option"
  cmd_rule :: "string list option"
  cmd_documents :: "pointer option"
  cmd_write :: "string option"
  cmd_silent :: "bool option"
  cmd_deprecated :: "bool option"
  cmd_noStrictFragments :: "bool option"
  cmd_maxDepth :: "number option"
  cmd_apollo :: "bool option"
  cmd_name :: "string option"
  cmd_threshold :: "number option"

text \<open>
  An object with none of these fields. A string, a boolean, a number and an array are
  such values too: read as a command, each of their fields is \<open>undefined\<close>.
\<close>

definition no_command :: command where
  "no_command =
     \<lparr> cmd_command = None, cmd_schema = None, cmd_rule = None, cmd_documents = None,
       cmd_write = None, cmd_silent = None, cmd_deprecated = None,
       cmd_noStrictFragments = None, cmd_maxDepth = None, cmd_apollo = None,
       cmd_name = None, cmd_threshold = None \<rparr>"

text \<open>The keys a command can have, each with whether the command has it.\<close>

definition command_fields :: "command \<Rightarrow> (string \<times> bool) list" where
  "command_fields body =
     [(''command'', cmd_command body \<noteq> None), (''schema'', cmd_schema body \<noteq> None),
      (''rule'', cmd_rule body \<noteq> None), (''documents'', cmd_documents body \<noteq> None),
      (''write'', cmd_write body \<noteq> None), (''silent'', cmd_silent body \<noteq> None),
      (''deprecated'', cmd_deprecated body \<noteq> None),
      (''noStrictFragments'', cmd_noStrictFragments body \<noteq> None),
      (''maxDepth'', cmd_maxDepth body \<noteq> None), (''apollo'', cmd_apollo body \<noteq> None),
      (''name'', cmd_name body \<noteq> None), (''threshold'', cmd_threshold body \<noteq> None)]"

definition has_field :: "command \<Rightarrow> string \<Rightarrow> bool" where
  "has_field body key = (map_of (command_fields body) key = Some True)"

definition supportedCommands :: "string list" where
  "supportedCommands = [''diff'', ''coverage'', ''similar'', ''validate'']"

definition isDiffCommand :: "command \<Rightarrow> bool" where
  "isDiffCommand command = (cmd_command command = Some ''diff'')"

definition isCoverageCommand :: "command \<Rightarrow> bool" where
  "isCoverageCommand command = (cmd_command command = Some ''coverage'')"

definition isSimilarCommand :: "command \<Rightarrow> bool" where
  "isSimilarCommand command = (cmd_command command = Some ''similar'')"

definition isValidateCommand :: "command \<Rightarrow> bool" where
  "isValidateCommand command = (cmd_command command = Some ''validate'')"

definition isCommandName :: "string \<Rightarrow> bool" where
  "isCommandName name = (name \<in> set supportedCommands)"

text \<open>
  The object spread \<open>{command: name, ...config}\<close>: the tag is set first and the fields of
  \<open>config\<close> are copied over it, so a tag that \<open>config\<close> has itself replaces \<open>name\<close>.
\<close>

definition spread_command :: "string \<Rightarrow> command \<Rightarrow> command" where
  "spread_command name config =
     (case cmd_command config of
        None \<Rightarrow> config\<lparr>cmd_command := Some name\<rparr>
      | Some tag \<Rightarrow> config)"

text \<open>The value the loop of \<open>transformProject\<close> stores under \<open>name\<close> (lines 275 to 282).\<close>

definition transformCommand :: "string \<Rightarrow> command \<Rightarrow> command" where
  "transformCommand name config =
     (if isCommandName name then spread_command name config else config)"

text \<open>
  A project and a configuration of graphql-config, with the methods the pipeline calls.
  \<open>proj_extension\<close> gives the \<open>commands\<close> object of the extension of that name, as
  the list of its entries in the order of \<open>for ... in\<close>. The record of a command does not
  keep the order in which the configuration file lists the fields of a body;
  \<open>proj_keys\<close> gives it: the keys of a body in the order of \<open>for ... in\<close>.
\<close>

record project =
  proj_name :: string
  proj_schema :: "pointer option"
  proj_documents :: "pointer option"
  proj_hasExtension :: "string \<Rightarrow> bool"
  proj_extension :: "string \<Rightarrow> (string \<times> command) list"
  proj_keys :: "command \<Rightarrow> string list"
  proj_getSchema :: "js_error + schema"
  proj_getDocuments :: "js_error + source list"
  proj_loadSchema :: "pointer option \<Rightarrow> js_error + schema"
  proj_loadDocuments :: "pointer option \<Rightarrow> js_error + source list"

record config =
  cfg_filepath :: string
  cfg_getDefault :: "js_error + project"
  cfg_getProject :: "string option \<Rightarrow> js_error + project"

text \<open>
  The entries of a body that \<open>for ... in\<close> enumerates when the body is the prototype of
  an object: the fields it has, in the order of the file. The value of such an entry is
  the value of the field, which has no field of a command.
\<close>

definition inherited_entries :: "project \<Rightarrow> command option \<Rightarrow> (string \<times> command) list" where
  "inherited_entries project proto =
     (case proto of
        None \<Rightarrow> []
      | Some body \<Rightarrow>
          map (\<lambda>key. (key, no_command))
            (remdups (filter (has_field body) (proj_keys project body))))"

text \<open>
  The result of \<open>transformProject\<close>. The pipeline reads \<open>inspector.commands\<close> with
  \<open>for ... in\<close> only, so \<open>ic_commands\<close> is the object as that loop sees it: the own
  entries the assignments of lines 275 to 282 made, followed by the entries inherited
  from the prototype when one of the assignments replaced it.
\<close>

record inspector_config =
  ic_schema :: "pointer option"
  ic_documents :: "pointer option"
  ic_commands :: "(string \<times> command) list"

definition transformProject :: "project \<Rightarrow> inspector_config" where
  "transformProject project =
     (let inspector_commands = proj_extension project ''inspector'';
          commands =
            fold (\<lambda>(name, config) commands. obj_set name (transformCommand name config) commands)
              inspector_commands [];
          prototype =
            fold (\<lambda>(name, config) proto. obj_prototype name (transformCommand name config) proto)
              inspector_commands None
      in \<lparr> ic_schema = proj_schema project,
           ic_documents = proj_documents project,
           ic_commands = for_in commands (inherited_entries project prototype) \<rparr>)"

section \<open>The collaborators as parameters\<close>

text \<open>
  The operations of other packages and of modules that are not among the sources are
  parameters of the model. Loading and the two commands \<open>runDiff\<close> and \<open>runCoverage\<close>
  (of \<open>./diff\<close> and \<open>./coverage\<close>) may throw; the computations of the core
  (\<open>validate\<close>, \<open>similar\<close>, \<open>getTypePrefix\<close>), \<open>print\<close> of graphql and the formatting
  helpers return a result. \<open>floor_percent\<close> is \<open>Math.floor(ratio * 100)\<close>, a
  floating-point product; \<open>number_toString\<close> is the decimal text of a number.
  \<open>fs_writeFileSync\<close> is \<open>writeFileSync\<close> of \<open>fs\<close> with the encoding \<open>utf-8\<close>: the error
  it throws, or \<open>None\<close> when it has written the file.
\<close>

record env =
  loadConfig :: "string option \<Rightarrow> js_error + config"
  chalk :: "style \<Rightarrow> string \<Rightarrow> string"
  figures_bullet :: string
  graphql_print :: "document_node \<Rightarrow> string"
  runDiff :: "schema \<Rightarrow> schema \<Rightarrow> string list option \<Rightarrow> unit io"
  runCoverage :: "schema \<Rightarrow> gsource list \<Rightarrow> string option \<Rightarrow> bool \<Rightarrow> unit io"
  validateDocuments :: "schema \<Rightarrow> gsource list \<Rightarrow> validator_options \<Rightarrow> invalid_document list"
  renderInvalidDocument :: "invalid_document \<Rightarrow> string list"
  renderDeprecatedUsageInDocument :: "invalid_document \<Rightarrow> bool \<Rightarrow> string list"
  findSimilar :: "schema \<Rightarrow> string option \<Rightarrow> number option \<Rightarrow> similar_map"
  getTypePrefix :: "schema \<Rightarrow> string \<Rightarrow> string"
  floor_percent :: "number \<Rightarrow> int"
  number_toString :: "number \<Rightarrow> string"
  isValidPath :: "string \<Rightarrow> bool"
  ensureAbsolute :: "string \<Rightarrow> string"
  extname :: "string \<Rightarrow> string"
  toLocaleLowerCase :: "string \<Rightarrow> string"
  fs_writeFileSync :: "string \<Rightarrow> string \<Rightarrow> js_error option"

text \<open>
  A call of \<open>writeFileSync\<close>: the file is recorded as written when the call returns. What
  a call that throws leaves on the disk is not modelled.
\<close>

definition writeFileSync :: "env \<Rightarrow> string \<Rightarrow> string \<Rightarrow> unit io" where
  "writeFileSync env path output =
     (case fs_writeFileSync env path output of
        None \<Rightarrow> ([WriteFile path output], Inr ())
      | Some e \<Rightarrow> io_throw e)"

definition newline :: string where
  "newline = [CHR 0x0A]"

section \<open>The validate command (\<open>commands/validate.ts\<close>)\<close>

definition countErrors :: "invalid_document list \<Rightarrow> nat" where
  "countErrors invalidDocuments =
     (if invalidDocuments \<noteq> [] then length (filter (\<lambda>doc. doc_errors doc \<noteq> []) invalidDocuments)
      else 0)"

definition countDeprecated :: "invalid_document list \<Rightarrow> nat" where
  "countDeprecated invalidDocuments =
     (if invalidDocuments \<noteq> [] then length (filter (\<lambda>doc. doc_deprecated doc \<noteq> []) invalidDocuments)
      else 0)"

text \<open>The object literal \<open>runValidate\<close> passes to the validator (lines 32 to 37).\<close>

definition validatorOptions :: "validate_options \<Rightarrow> validator_options" where
  "validatorOptions options =
     \<lparr> strictFragments = (\<not> opt_noStrictFragments options),
       maxDepth = (case opt_maxDepth options of
                     Some n \<Rightarrow> (if n \<noteq> 0 then Some n else None)
                   | None \<Rightarrow> None),
       apollo = (case opt_apollo options of Some b \<Rightarrow> (if b then b else False) | None \<Rightarrow> False),
       keepClientFields =
         (case opt_keepClientFields options of Some b \<Rightarrow> (if b then b else False) | None \<Rightarrow> False) \<rparr>"

text \<open>What \<open>runValidate\<close> does with the validator's result (lines 39 to 81).\<close>

definition validateReport :: "env \<Rightarrow> validate_options \<Rightarrow> invalid_document list \<Rightarrow> unit io" where
  "validateReport env options invalidDocuments =
     (if invalidDocuments = [] then success [''All documents are valid'']
      else
        (let errorsCount = countErrors invalidDocuments;
             deprecated = countDeprecated invalidDocuments
         in
           io_then
             (if errorsCount \<noteq> 0 then
                io_then
                  (emit [newline @ ''Detected '' @ digits errorsCount @ '' invalid document''
                           @ (if errorsCount > 1 then ''s'' else []) @ '':'' @ newline])
                  (io_forEach
                     (\<lambda>doc. if doc_errors doc \<noteq> [] then emit (renderInvalidDocument env doc)
                            else io_return ())
                     invalidDocuments)
              else if \<not> opt_deprecated options then success [''All documents are valid'']
              else io_return ())
          (io_then
             (if deprecated \<noteq> 0 then
                io_then
                  (emit [newline @ ''Detected '' @ digits deprecated @ '' document''
                           @ (if deprecated > 1 then ''s'' else [])
                           @ '' with deprecated fields:'' @ newline])
                  (io_forEach
                     (\<lambda>doc. if doc_deprecated doc \<noteq> [] then
                              emit (renderDeprecatedUsageInDocument env doc (opt_deprecated options))
                            else io_return ())
                     invalidDocuments)
              else io_return ())
             (if errorsCount \<noteq> 0 \<or> (deprecated \<noteq> 0 \<and> opt_deprecated options) then
                io_throw (Error ''Some documents are invalid'')
              else io_return ()))))"

definition runValidate :: "env \<Rightarrow> gsource list \<Rightarrow> schema \<Rightarrow> validate_options \<Rightarrow> unit io" where
  "runValidate env documents schema options =
     validateReport env options
       (validateDocuments env schema documents (validatorOptions options))"

section \<open>The similar command (\<open>commands/similar.ts\<close>)\<close>

definition printScale :: "env \<Rightarrow> number \<Rightarrow> string" where
  "printScale env ratio =
     (let percentage = floor_percent env ratio;
          levels = [0, 30, 50, 70, 90]
      in concat
           (map (\<lambda>enabled. if enabled then figures_bullet env
                           else chalk env Grey (figures_bullet env))
              (map (\<lambda>level. percentage \<ge> level) levels)))"

definition formatRating :: "env \<Rightarrow> number \<Rightarrow> int" where
  "formatRating env ratio = floor_percent env ratio"

text \<open>\<open>indent(text, 0)\<close> is the text.\<close>

definition printResult :: "env \<Rightarrow> string \<Rightarrow> number \<Rightarrow> string" where
  "printResult env name rating =
     (let percentage = chalk env Grey (''('' @ show_int (formatRating env rating) @ ''%)'')
      in printScale env rating @ '' '' @ percentage @ '' '' @ name)"

definition trasformResult :: "rating \<Rightarrow> similar_record" where
  "trasformResult record =
     \<lparr> rec_typename = target_typeId record, rec_rating = rating_value record \<rparr>"

text \<open>
  \<open>similarMap.hasOwnProperty(key)\<close>, the guard of the two loops over the similarity map.
  The method is the one of \<open>Object.prototype\<close> unless the map has the key
  \<open>hasOwnProperty\<close> itself: then the value of that key, the matches of a type, is called,
  and the call throws.
\<close>

definition hasOwnProperty :: "similar_map \<Rightarrow> string \<Rightarrow> js_error + bool" where
  "hasOwnProperty similarMap key =
     (if ''hasOwnProperty'' \<in> fst ` set similarMap then
        Inl (TypeError ''similarMap.hasOwnProperty is not a function'')
      else Inr (key \<in> fst ` set similarMap))"

text \<open>The array \<open>transformMap\<close> fills for one type (lines 132 to 140).\<close>

definition transformMatches :: "best_match \<Rightarrow> similar_record list" where
  "transformMatches result =
     (case bestMatch result of Some best \<Rightarrow> [trasformResult best] | None \<Rightarrow> [])
     @ (case ratings result of Some rs \<Rightarrow> map trasformResult rs | None \<Rightarrow> [])"

definition transformMap :: "similar_map \<Rightarrow> js_error + similar_results" where
  "transformMap similarMap =
     fold (\<lambda>(typename, result) results.
             case results of
               Inl error \<Rightarrow> Inl error
             | Inr results \<Rightarrow>
                 (case hasOwnProperty similarMap typename of
                    Inl error \<Rightarrow> Inl error
                  | Inr own \<Rightarrow>
                      if own then Inr (obj_set typename (transformMatches result) results)
                      else Inr results))
       similarMap (Inr [])"

text \<open>The map \<open>transformMap\<close> returns when the guard does not throw.\<close>

definition result_map :: "similar_map \<Rightarrow> similar_results" where
  "result_map similarMap =
     fold (\<lambda>(typename, result) results. obj_set typename (transformMatches result) results)
       similarMap []"

text \<open>
  \<open>JSON.stringify\<close> of a result map: the keys in their order, each with the array of
  its records. A string is quoted with the escapes of \<open>JSON.stringify\<close>.
\<close>

definition hex_digit :: "nat \<Rightarrow> char" where
  "hex_digit n = ''0123456789abcdef'' ! n"

definition json_escape :: "char \<Rightarrow> string" where
  "json_escape c =
     (if c = CHR 0x22 then [CHR 0x5C, CHR 0x22]
      else if c = CHR 0x5C then [CHR 0x5C, CHR 0x5C]
      else if c = CHR 0x08 then [CHR 0x5C, CHR ''b'']
      else if c = CHR 0x0C then [CHR 0x5C, CHR ''f'']
      else if c = CHR 0x0A then [CHR 0x5C, CHR ''n'']
      else if c = CHR 0x0D then [CHR 0x5C, CHR ''r'']
      else if c = CHR 0x09 then [CHR 0x5C, CHR ''t'']
      else if of_char c < (32 :: nat) then
        [CHR 0x5C, CHR ''u'', CHR ''0'', CHR ''0'',
         hex_digit (of_char c div 16), hex_digit (of_char c mod 16)]
      else [c])"

definition json_string :: "string \<Rightarrow> string" where
  "json_string s = [CHR 0x22] @ concat (map json_escape s) @ [CHR 0x22]"

fun join :: "string \<Rightarrow> string list \<Rightarrow> string" where
  "join sep [] = []"
| "join sep [x] = x"
| "join sep (x # y # ys) = x @ sep @ join sep (y # ys)"

definition json_record :: "env \<Rightarrow> similar_record \<Rightarrow> string" where
  "json_record env r =
     ''{'' @ json_string ''typename'' @ '':'' @ json_string (rec_typename r) @ '',''
       @ json_string ''rating'' @ '':'' @ number_toString env (rec_rating r) @ ''}''"

definition JSON_stringify :: "env \<Rightarrow> similar_results \<Rightarrow> string" where
  "JSON_stringify env results =
     ''{'' @ join '',''
              (map (\<lambda>(typename, records).
                      json_string typename @ '':''
                      @ ''['' @ join '','' (map (json_record env) records) @ '']'')
                 results)
       @ ''}''"

definition outputJSON :: "env \<Rightarrow> similar_results \<Rightarrow> string" where
  "outputJSON env results = JSON_stringify env results"

text \<open>The body of the loop over the similarity map, inside its guard (lines 42 to 55).\<close>

definition printMatches :: "env \<Rightarrow> schema \<Rightarrow> string \<times> best_match \<Rightarrow> unit io" where
  "printMatches env schema entry =
     (case entry of (typeName, matches) \<Rightarrow>
        (let prefix = getTypePrefix env schema typeName;
             sourceType = chalk env Bold typeName
         in case bestMatch matches of
              None \<Rightarrow> io_throw (TypeError ''Cannot read property target of undefined'')
            | Some best \<Rightarrow>
                io_then (emit [])
               (io_then (emit [prefix @ '' '' @ sourceType])
               (io_then (emit [printResult env (target_typeId best) (rating_value best)])
                  (case ratings matches of
                     None \<Rightarrow> io_throw (TypeError ''Cannot read property forEach of undefined'')
                   | Some rs \<Rightarrow>
                       io_forEach
                         (\<lambda>match. emit [printResult env (target_typeId match) (rating_value match)])
                         rs)))))"

text \<open>The write step (lines 59 to 85), for a \<open>write\<close> that is not \<open>undefined\<close>.\<close>

definition writeResults :: "env \<Rightarrow> similar_map \<Rightarrow> string \<Rightarrow> unit io" where
  "writeResults env similarMap write_path =
     (if \<not> isValidPath env write_path then
        io_throw (Error (''--write is not valid file path: '' @ write_path))
      else
        (let absPath = ensureAbsolute env write_path;
             ext = toLocaleLowerCase env (remove1 (CHR ''.'') (extname env absPath))
         in io_bind (io_await (transformMap similarMap))
              (\<lambda>results.
                 let output = (if ext = ''json'' then Some (outputJSON env results) else None);
                     unsupported = io_throw (Error (''Extension '' @ ext @ '' is not supported''))
                 in case output of
                      Some text \<Rightarrow>
                        if text \<noteq> [] then
                          io_then (writeFileSync env absPath text)
                            (success [''Available at'', absPath, newline])
                        else unsupported
                    | None \<Rightarrow> unsupported)))"

definition runSimilar ::
  "env \<Rightarrow> schema \<Rightarrow> string option \<Rightarrow> number option \<Rightarrow> string option \<Rightarrow> unit io" where
  "runSimilar env schema name threshold write_opt =
     (let shouldWrite = (write_opt \<noteq> None);
          similarMap = findSimilar env schema name threshold
      in if similarMap = [] then emit [newline @ ''No similar types found'']
         else
           io_then
             (io_forEach
                (\<lambda>entry.
                   io_bind (io_await (hasOwnProperty similarMap (fst entry)))
                     (\<lambda>own. if own then printMatches env schema entry else io_return ()))
                similarMap)
          (io_then
             (if shouldWrite then
                (case write_opt of
                   Some write_path \<Rightarrow> writeResults env similarMap write_path
                 | None \<Rightarrow> io_return ())
              else io_return ())
             (emit [])))"

subsection \<open>Reading the written text back\<close>













section \<open>The pipeline (\<open>run\<close>)\<close>

text \<open>
  The options of \<open>run\<close>. The third option, a renderer that replaces the console
  renderer, only changes where the final lines go; they are recorded as \<open>reported\<close>.
\<close>

record run_options =
  run_config :: "string option"
  run_project :: "string option"

text \<open>The context after the five setup stages.\<close>

record ctx =
  ctx_config :: config
  ctx_project :: project
  ctx_schema :: schema
  ctx_documents :: "source list option"

definition findAndLoadConfig :: "env \<Rightarrow> string option \<Rightarrow> js_error + config" where
  "findAndLoadConfig env filepath = loadConfig env filepath"

text \<open>The stage \<open>Picking project\<close> (lines 55 to 62).\<close>

definition picking_project :: "config \<Rightarrow> run_options \<Rightarrow> js_error + project" where
  "picking_project config options =
     (if truthy_string (run_project options) then cfg_getDefault config
      else cfg_getProject config (run_project options))"

text \<open>The stage \<open>Checking for extension\<close> (lines 64 to 73).\<close>

definition checking_extension :: "config \<Rightarrow> project \<Rightarrow> js_error + unit" where
  "checking_extension config project =
     (if \<not> proj_hasExtension project ''inspector'' then
        Inl (Error (''You GraphQL Config has no '' @ [CHR 0x27] @ ''inspector'' @ [CHR 0x27]
                    @ '' extension: '' @ cfg_filepath config))
      else Inr ())"

text \<open>The stage \<open>Loading documents\<close>, skipped when the project declares none.\<close>

definition loading_documents :: "project \<Rightarrow> js_error + source list option" where
  "loading_documents project =
     (if \<not> truthy_pointer (proj_documents project) then Inr None
      else (case proj_getDocuments project of
              Inl e \<Rightarrow> Inl e
            | Inr documents \<Rightarrow> Inr (Some documents)))"

text \<open>
  The setup stages run in order; the list exits on the first error, which \<open>run\<close>
  catches.
\<close>

definition setup_stages :: "env \<Rightarrow> run_options \<Rightarrow> js_error + ctx" where
  "setup_stages env options =
     (case findAndLoadConfig env (run_config options) of
        Inl e \<Rightarrow> Inl e
      | Inr config \<Rightarrow>
     (case picking_project config options of
        Inl e \<Rightarrow> Inl e
      | Inr project \<Rightarrow>
     (case checking_extension config project of
        Inl e \<Rightarrow> Inl e
      | Inr u \<Rightarrow>
     (case proj_getSchema project of
        Inl e \<Rightarrow> Inl e
      | Inr schema \<Rightarrow>
     (case loading_documents project of
        Inl e \<Rightarrow> Inl e
      | Inr documents \<Rightarrow>
          Inr \<lparr> ctx_config = config, ctx_project = project,
                ctx_schema = schema, ctx_documents = documents \<rparr>)))))"

subsection \<open>One command task\<close>

definition template :: "string option \<Rightarrow> string" where
  "template v = (case v of Some s \<Rightarrow> s | None \<Rightarrow> ''undefined'')"

definition toSources :: "env \<Rightarrow> source list \<Rightarrow> gsource list" where
  "toSources env documents =
     map (\<lambda>source. GSource (graphql_print env (src_document source)) (src_location source))
       documents"

text \<open>\<open>ctx.documents || (await ctx.project.loadDocuments(command.documents!))\<close>\<close>

definition taskDocuments :: "ctx \<Rightarrow> command \<Rightarrow> js_error + source list" where
  "taskDocuments ctx command =
     (case ctx_documents ctx of
        Some documents \<Rightarrow> Inr documents
      | None \<Rightarrow> proj_loadDocuments (ctx_project ctx) (cmd_documents command))"

text \<open>The options the pipeline gives \<open>runValidate\<close> (lines 164 to 168).\<close>

definition validateOptions :: "command \<Rightarrow> validate_options" where
  "validateOptions command =
     \<lparr> opt_deprecated = pick (cmd_deprecated command) False,
       opt_noStrictFragments = pick (cmd_noStrictFragments command) False,
       opt_apollo = Some (pick (cmd_apollo command) False),
       opt_keepClientFields = None,
       opt_maxDepth = None \<rparr>"

text \<open>The body of the \<open>try\<close> block of a command task (lines 109 to 184).\<close>

definition dispatch :: "env \<Rightarrow> ctx \<Rightarrow> string \<Rightarrow> command \<Rightarrow> unit io" where
  "dispatch env ctx taskName command =
     io_then (emit [newline @ chalk env BgBlueWhite '' command '', chalk env Bold taskName])
       (let schema = ctx_schema ctx in
        if isDiffCommand command then
          io_bind (io_await (proj_loadSchema (ctx_project ctx) (cmd_schema command)))
            (\<lambda>oldSchema. runDiff env schema oldSchema (cmd_rule command))
        else if isCoverageCommand command then
          (if ctx_documents ctx = None \<and> \<not> truthy_pointer (cmd_documents command) then
             io_throw (Error ''Documents are missing'')
           else
             io_bind (io_await (taskDocuments ctx command))
               (\<lambda>documents. runCoverage env schema (toSources env documents)
                               (cmd_write command) (pick (cmd_silent command) False)))
        else if isValidateCommand command then
          (if ctx_documents ctx = None \<and> \<not> truthy_pointer (cmd_documents command) then
             io_throw (Error ''Documents are missing'')
           else
             io_bind (io_await (taskDocuments ctx command))
               (\<lambda>documents. runValidate env (toSources env documents) schema
                               (validateOptions command)))
        else if isSimilarCommand command then
          runSimilar env schema (cmd_name command) (cmd_threshold command) (cmd_write command)
        else
          io_throw (Error (''Command '' @ template (cmd_command command) @ '' not supported'')))"

text \<open>The first line of every task: the banner with the task's name (lines 109 to 112).\<close>

definition banner :: "env \<Rightarrow> string \<Rightarrow> line" where
  "banner env taskName = Emit [newline @ chalk env BgBlueWhite '' command '', chalk env Bold taskName]"

text \<open>
  What a task does to the shared state: an effect of the command (a call on the task's
  own renderer, or a file write), or the assignment \<open>ctx.ok = false\<close>.
\<close>

datatype action = Do effect | NotOk

record listr_task =
  task_title :: string
  task_actions :: "action list"

text \<open>
  The task of one command (lines 105 to 190): the \<open>try\<close> block, and the \<open>catch\<close> block
  when the body throws.
\<close>

definition command_task :: "env \<Rightarrow> ctx \<Rightarrow> string \<Rightarrow> command \<Rightarrow> listr_task" where
  "command_task env ctx taskName command =
     \<lparr> task_title = taskName @ '' - '' @ template (cmd_command command),
       task_actions =
         (case dispatch env ctx taskName command of
            (es, Inr u) \<Rightarrow> map Do es
          | (es, Inl error) \<Rightarrow>
              map Do es @ [NotOk, Do (Render (Err (error_arg error)))]) \<rparr>"

subsection \<open>The buffered renderer\<close>

text \<open>
  Modelled from the spec: \<open>ConsoleBufferRenderer\<close> of \<open>../render\<close> is not among the
  sources. The spec describes it as an ordered, append-only collection of output lines
  private to one task, flushed later in original emission order: a new renderer holds no
  line, a call appends its line, and \<open>print\<close> sends the lines to the console in the order
  of the calls.
\<close>

definition new_buffer :: "line list" where
  "new_buffer = []"

definition buffer_call :: "line \<Rightarrow> line list \<Rightarrow> line list" where
  "buffer_call l buffer = buffer @ [l]"

definition buffer_print :: "line list \<Rightarrow> line list \<Rightarrow> line list" where
  "buffer_print buffer console = console @ buffer"

subsection \<open>The concurrent list\<close>

text \<open>
  The state the tasks of the concurrent list share: the renderers and the flag of the
  context, the files written, and for each task the actions it has not performed yet.
\<close>

record fan =
  renderers :: "line list list"
  ok :: bool
  files :: "(string \<times> string) list"
  pending :: "action list list"

fun perform :: "nat \<Rightarrow> action \<Rightarrow> fan \<Rightarrow> fan" where
  "perform i (Do (Render l)) st =
     st\<lparr>renderers := (renderers st)[i := buffer_call l (renderers st ! i)]\<rparr>"
| "perform i (Do (WriteFile path text)) st = st\<lparr>files := files st @ [(path, text)]\<rparr>"
| "perform i NotOk st = st\<lparr>ok := False\<rparr>"

text \<open>
  The tasks of a concurrent list are interleaved: a schedule names, step by step, the
  task that performs its next action (a step that names no task, or a task that has
  finished, does nothing). The list settles when every task has finished: after the
  schedule, each task performs the actions it has left. The event loop suspends a task
  only where it awaits; a schedule may switch tasks after every action, so the schedules
  cover every order in which the event loop can run and complete the tasks. What a
  collaborator renders and returns is a function of its arguments: the actions of a task
  do not depend on the other tasks, only their order in time does.
\<close>

definition step :: "nat \<Rightarrow> fan \<Rightarrow> fan" where
  "step i st =
     (if i < length (pending st) then
        (case pending st ! i of
           [] \<Rightarrow> st
         | a # as \<Rightarrow> perform i a (st\<lparr>pending := (pending st)[i := as]\<rparr>))
      else st)"

definition finish :: "nat \<Rightarrow> fan \<Rightarrow> fan" where
  "finish i st = fold (\<lambda>a. step i) (pending st ! i) st"

definition settle :: "fan \<Rightarrow> fan" where
  "settle st = fold finish [0..<length (pending st)] st"

definition listr_concurrent :: "nat list \<Rightarrow> listr_task list \<Rightarrow> fan \<Rightarrow> fan" where
  "listr_concurrent schedule tasks st =
     settle (fold step schedule (st\<lparr>pending := map task_actions tasks\<rparr>))"

text \<open>
  The stage \<open>Running commands\<close> (lines 90 to 197) for the commands of the normalized
  configuration: the loop that creates one renderer and one task per command, and the
  concurrent list of the tasks.
\<close>

definition create_tasks ::
  "env \<Rightarrow> ctx \<Rightarrow> (string \<times> command) list \<Rightarrow> line list list \<times> listr_task list" where
  "create_tasks env ctx commands =
     fold (\<lambda>(taskName, command) (rs, tasks).
             (rs @ [new_buffer], tasks @ [command_task env ctx taskName command]))
       commands ([], [])"

definition fan_out :: "env \<Rightarrow> ctx \<Rightarrow> nat list \<Rightarrow> (string \<times> command) list \<Rightarrow> fan" where
  "fan_out env ctx schedule commands =
     (case create_tasks env ctx commands of
        (rs, tasks) \<Rightarrow>
          listr_concurrent schedule tasks
            \<lparr> renderers = rs, ok = True, files = [], pending = [] \<rparr>)"

definition running_commands :: "env \<Rightarrow> ctx \<Rightarrow> nat list \<Rightarrow> fan" where
  "running_commands env ctx schedule =
     fan_out env ctx schedule (ic_commands (transformProject (ctx_project ctx)))"

text \<open>
  The result of \<open>run\<close>: the lines the renderers of the tasks printed, the lines sent to
  the renderer of \<open>run\<close>, and the exit code when the process is made to exit.
\<close>

record run_result =
  printed :: "line list"
  reported :: "line list"
  exit_code :: "nat option"

definition run :: "env \<Rightarrow> nat list \<Rightarrow> run_options \<Rightarrow> run_result" where
  "run env schedule options =
     (case setup_stages env options of
        Inl error \<Rightarrow>
          \<lparr> printed = [],
            reported = [Err (error_arg error), Emit [newline]],
            exit_code = Some 1 \<rparr>
      | Inr ctx \<Rightarrow>
          (let st = running_commands env ctx schedule;
               console = fold buffer_print (renderers st) []
           in if \<not> ok st then
                \<lparr> printed = console,
                  reported = [Err (error_arg (Error ''Something went wrong - check the above report'')),
                              Emit [newline]],
                  exit_code = Some 1 \<rparr>
              else \<lparr> printed = console, reported = [], exit_code = None \<rparr>))"

subsection \<open>What a task leaves in its renderer\<close>

text \<open>
  The lines a command's task sends to its renderer when it runs to its end: those of the
  command, and the error line of the \<open>catch\<close> block when the command throws.
\<close>

definition task_lines :: "env \<Rightarrow> ctx \<Rightarrow> string \<times> command \<Rightarrow> line list" where
  "task_lines env ctx entry =
     (case entry of (taskName, command) \<Rightarrow>
        (case dispatch env ctx taskName command of
           (es, Inr u) \<Rightarrow> rendered es
         | (es, Inl error) \<Rightarrow> rendered es @ [Err (error_arg error)]))"

definition task_fails :: "env \<Rightarrow> ctx \<Rightarrow> string \<times> command \<Rightarrow> bool" where
  "task_fails env ctx entry =
     (case entry of (taskName, command) \<Rightarrow> throws (dispatch env ctx taskName command))"

definition action_lines :: "action list \<Rightarrow> line list" where
  "action_lines as =
     concat (map (\<lambda>a. case a of Do (Render l) \<Rightarrow> [l] | Do (WriteFile p t) \<Rightarrow> [] | NotOk \<Rightarrow> []) as)"

text \<open>
  Two facts that every step of a schedule keeps: each renderer, followed by the lines its
  task has still to send, is the task's whole output; and the flag is true exactly when
  no task has performed or has still to perform \<open>ctx.ok = false\<close>.
\<close>

definition lines_kept :: "line list list \<Rightarrow> fan \<Rightarrow> bool" where
  "lines_kept outputs st =
     (length (renderers st) = length outputs \<and> length (pending st) = length outputs \<and>
      list_all (\<lambda>i. renderers st ! i @ action_lines (pending st ! i) = outputs ! i)
        [0..<length outputs])"

definition flag_kept :: "bool \<Rightarrow> fan \<Rightarrow> bool" where
  "flag_kept all_ok st = ((ok st \<and> list_all (\<lambda>as. NotOk \<notin> set as) (pending st)) = all_ok)"

section \<open>Example inputs\<close>

definition ex_schema :: schema where
  "ex_schema = GraphQLSchema ''type Query { user: User }''"

definition ex_commands :: "(string \<times> command) list" where
  "ex_commands =
     [(''diff'', no_command\<lparr>cmd_schema := Some (Pointer ''old.graphql'')\<rparr>),
      (''docs'', no_command\<lparr>cmd_command := Some ''validate''\<rparr>),
      (''lint'', no_command\<lparr>cmd_command := Some ''lint''\<rparr>),
      (''similar'', no_command\<lparr>cmd_name := Some ''Nothing''\<rparr>)]"

text \<open>A file that lists the fields of every body in the order of the interfaces.\<close>

definition ex_keys :: "command \<Rightarrow> string list" where
  "ex_keys body = map fst (filter snd (command_fields body))"

definition ex_project :: "string \<Rightarrow> project" where
  "ex_project name =
     \<lparr> proj_name = name,
       proj_schema = Some (Pointer ''schema.graphql''),
       proj_documents = None,
       proj_hasExtension = (\<lambda>extension. extension = ''inspector''),
       proj_extension = (\<lambda>extension. if extension = ''inspector'' then ex_commands else []),
       proj_keys = ex_keys,
       proj_getSchema = Inr ex_schema,
       proj_getDocuments = Inr [],
       proj_loadSchema =
         (\<lambda>p. case p of
                Some (Pointer path) \<Rightarrow> Inr (GraphQLSchema path)
              | Some (Pointers paths) \<Rightarrow> Inr (GraphQLSchema (concat paths))
              | None \<Rightarrow> Inl (Error ''Unable to load schema'')),
       proj_loadDocuments =
         (\<lambda>p. Inr [\<lparr> src_document = DocumentNode ''query { user }'',
                     src_location = ''user.graphql'' \<rparr>]) \<rparr>"

text \<open>
  A configuration with the projects \<open>default\<close> and \<open>api\<close>; as in graphql-config,
  \<open>getProject\<close> without a name gives the default project.
\<close>

definition ex_config :: config where
  "ex_config =
     \<lparr> cfg_filepath = ''/repo/.graphqlrc'',
       cfg_getDefault = Inr (ex_project ''default''),
       cfg_getProject =
         (\<lambda>name. case name of
                   None \<Rightarrow> Inr (ex_project ''default'')
                 | Some n \<Rightarrow>
                     if n = [] \<or> n = ''default'' then Inr (ex_project ''default'')
                     else if n = ''api'' then Inr (ex_project ''api'')
                     else Inl (Error (''Project '' @ n @ '' not found''))) \<rparr>"

definition ex_similar :: similar_map where
  "ex_similar =
     [(''User'',
       \<lparr> bestMatch = Some \<lparr> target_typeId = ''Account'', rating_value = 9 / 10 \<rparr>,
         ratings = Some [\<lparr> target_typeId = ''Member'', rating_value = 1 / 2 \<rparr>] \<rparr>)]"

text \<open>The similarity map of a schema with the types \<open>hasOwnProperty\<close> and \<open>hasOwnProperties\<close>.\<close>

definition ex_shadowed :: similar_map where
  "ex_shadowed =
     [(''hasOwnProperty'',
       \<lparr> bestMatch = Some \<lparr> target_typeId = ''hasOwnProperties'', rating_value = 9 / 10 \<rparr>,
         ratings = Some [] \<rparr>)]"

definition ascii_lower :: "char \<Rightarrow> char" where
  "ascii_lower c =
     (case map_of (zip ''ABCDEFGHIJKLMNOPQRSTUVWXYZ'' ''abcdefghijklmnopqrstuvwxyz'') c of
        Some l \<Rightarrow> l
      | None \<Rightarrow> c)"

text \<open>The extension of a path without directories: from its last dot.\<close>

definition ex_extname :: "string \<Rightarrow> string" where
  "ex_extname path =
     (if CHR ''.'' \<in> set path then CHR ''.'' # rev (takeWhile (\<lambda>c. c \<noteq> CHR ''.'') (rev path))
      else [])"

text \<open>The directory \<open>/repo/readonly\<close> cannot be written to.\<close>

definition ex_env :: env where
  "ex_env =
     \<lparr> loadConfig = (\<lambda>filepath. Inr ex_config),
       chalk = (\<lambda>style text. text),
       figures_bullet = ''*'',
       graphql_print = (\<lambda>document. case document of DocumentNode text \<Rightarrow> text),
       runDiff =
         (\<lambda>newSchema oldSchema rule.
            if newSchema = oldSchema then ([Render (Success [''No changes detected''])], Inr ())
            else ([Render (Emit [''Detected 1 change''])],
                  Inl (Error ''Detected 1 breaking change''))),
       runCoverage =
         (\<lambda>schema documents writePath silent. ([Render (Emit [''Schema coverage''])], Inr ())),
       validateDocuments =
         (\<lambda>schema documents options.
            concat (map (\<lambda>document.
                           if document = GSource ''query { missing }'' ''missing.graphql'' then
                             [\<lparr> doc_source = document,
                                doc_errors = [''Cannot query field missing''],
                                doc_deprecated = [] \<rparr>]
                           else if document = GSource ''query { old }'' ''old.graphql'' then
                             [\<lparr> doc_source = document,
                                doc_errors = [],
                                doc_deprecated = [''The field old is deprecated''] \<rparr>]
                           else [])
                      documents)),
       renderInvalidDocument = (\<lambda>doc. doc_errors doc),
       renderDeprecatedUsageInDocument = (\<lambda>doc isErrorCtx. doc_deprecated doc),
       findSimilar =
         (\<lambda>schema name threshold.
            if name = Some ''Nothing'' then []
            else if name = Some ''hasOwnProperty'' then ex_shadowed
            else ex_similar),
       getTypePrefix = (\<lambda>schema typeName. ''type''),
       floor_percent = (\<lambda>ratio. \<lfloor>ratio * 100\<rfloor>),
       number_toString =
         (\<lambda>n. if n = 9 / 10 then ''0.9'' else if n = 1 / 2 then ''0.5'' else ''0''),
       isValidPath = (\<lambda>path. path \<noteq> [] \<and> CHR ''*'' \<notin> set path),
       ensureAbsolute = (\<lambda>path. ''/repo/'' @ path),
       extname = ex_extname,
       toLocaleLowerCase = map ascii_lower,
       fs_writeFileSync =
         (\<lambda>path text.
            if take 15 path = ''/repo/readonly/'' then
              Some (Error (''EACCES: permission denied, open '' @ path))
            else None) \<rparr>"

definition ex_options :: "bool \<Rightarrow> validate_options" where
  "ex_options deprecated =
     \<lparr> opt_deprecated = deprecated, opt_noStrictFragments = False, opt_apollo = None,
       opt_keepClientFields = None, opt_maxDepth = None \<rparr>"

definition ex_ctx :: ctx where
  "ex_ctx =
     \<lparr> ctx_config = ex_config, ctx_project = ex_project ''default'',
       ctx_schema = ex_schema, ctx_documents = None \<rparr>"

definition ex_validate_command :: command where
  "ex_validate_command =
     no_command\<lparr>cmd_command := Some ''validate'', cmd_documents := Some (Pointer ''*.graphql'')\<rparr>"

definition ex_short_project :: project where
  "ex_short_project =
     (ex_project ''short'')\<lparr>proj_extension :=
        (\<lambda>extension. [(''diff'', no_command\<lparr>cmd_schema := Some (Pointer ''old.graphql'')\<rparr>)])\<rparr>"

definition ex_explicit_project :: project where
  "ex_explicit_project =
     (ex_project ''explicit'')\<lparr>proj_extension :=
        (\<lambda>extension. [(''myDiff'', no_command\<lparr>cmd_command := Some ''diff'',
                                               cmd_schema := Some (Pointer ''old.graphql'')\<rparr>)])\<rparr>"

text \<open>
  Two configurations with the label \<open>__proto__\<close>: an explicit diff command, and a command
  of the kind \<open>lint\<close> in the one project of a configuration file.
\<close>

definition ex_proto_project :: project where
  "ex_proto_project =
     (ex_project ''proto'')\<lparr>proj_extension :=
        (\<lambda>extension. [(''__proto__'', no_command\<lparr>cmd_command := Some ''diff'',
                                                 cmd_schema := Some (Pointer ''old.graphql'')\<rparr>)])\<rparr>"

definition ex_lint_project :: project where
  "ex_lint_project =
     (ex_project ''default'')\<lparr>proj_extension :=
        (\<lambda>extension. [(''__proto__'', no_command\<lparr>cmd_command := Some ''lint''\<rparr>)])\<rparr>"

definition ex_lint_env :: env where
  "ex_lint_env =
     ex_env\<lparr>loadConfig :=
       (\<lambda>filepath. Inr \<lparr> cfg_filepath = ''/repo/.graphqlrc.json'',
                           cfg_getDefault = Inr ex_lint_project,
                           cfg_getProject = (\<lambda>name. Inr ex_lint_project) \<rparr>)\<rparr>"

definition ex_run_options :: "string option \<Rightarrow> run_options" where
  "ex_run_options project = \<lparr> run_config = None, run_project = project \<rparr>"

text \<open>The commands of the example project, normalized.\<close>

definition ex_normalized :: "(string \<times> command) list" where
  "ex_normalized =
     [(''diff'', no_command\<lparr>cmd_command := Some ''diff'',
                             cmd_schema := Some (Pointer ''old.graphql'')\<rparr>),
      (''docs'', no_command\<lparr>cmd_command := Some ''validate''\<rparr>),
      (''lint'', no_command\<lparr>cmd_command := Some ''lint''\<rparr>),
      (''similar'', no_command\<lparr>cmd_command := Some ''similar'', cmd_name := Some ''Nothing''\<rparr>)]"


section \<open>The validate command: when it throws\<close>

lemma throws_simps:
  "throws (io_return x) = False"
  "throws (io_throw e) = True"
  "throws (emit msgs) = False"
  "throws (success msgs) = False"
  by (simp_all add: throws_def io_return_def io_throw_def emit_def success_def)

lemma throws_io_then: "throws (io_then m k) \<longleftrightarrow> throws m \<or> throws k"
  by (cases m; cases k) (auto simp: throws_def io_then_def io_bind_def split: sum.splits prod.splits)

lemma throws_io_forEach: "throws (io_forEach f xs) \<longleftrightarrow> (\<exists>x \<in> set xs. throws (f x))"
  by (induction xs) (simp_all add: throws_simps throws_io_then)

lemma countErrors_pos: "countErrors ds \<noteq> 0 \<longleftrightarrow> (\<exists>d \<in> set ds. doc_errors d \<noteq> [])"
  by (auto simp: countErrors_def filter_empty_conv)

lemma countDeprecated_pos: "countDeprecated ds \<noteq> 0 \<longleftrightarrow> (\<exists>d \<in> set ds. doc_deprecated d \<noteq> [])"
  by (auto simp: countDeprecated_def filter_empty_conv)

lemma throws_validateReport:
  "throws (validateReport env options ds) \<longleftrightarrow>
     (\<exists>d \<in> set ds. doc_errors d \<noteq> []) \<or> ((\<exists>d \<in> set ds. doc_deprecated d \<noteq> []) \<and> opt_deprecated options)"
proof (cases "ds = []")
  case True
  then show ?thesis by (simp add: validateReport_def throws_simps)
next
  case False
  have "throws (validateReport env options ds) \<longleftrightarrow>
          countErrors ds \<noteq> 0 \<or> (countDeprecated ds \<noteq> 0 \<and> opt_deprecated options)"
    using False
    by (simp add: validateReport_def Let_def throws_io_then throws_io_forEach throws_simps)
  then show ?thesis
    by (simp only: countErrors_pos countDeprecated_pos)
qed

text \<open>
  C4. \<open>runValidate\<close> throws exactly when a document the validator returned has errors,
  or a document it returned uses deprecated fields and the option \<open>deprecated\<close> is true;
  otherwise it returns.
\<close>

theorem runValidate_throws_iff:
  "throws (runValidate env documents schema options) \<longleftrightarrow>
     (\<exists>doc \<in> set (validateDocuments env schema documents (validatorOptions options)).
        doc_errors doc \<noteq> [])
     \<or> ((\<exists>doc \<in> set (validateDocuments env schema documents (validatorOptions options)).
           doc_deprecated doc \<noteq> [])
        \<and> opt_deprecated options)"
  unfolding runValidate_def by (rule throws_validateReport)

lemma ex_validate:
  "validateDocuments ex_env s [GSource ''query { old }'' ''old.graphql''] vo =
     [\<lparr> doc_source = GSource ''query { old }'' ''old.graphql'', doc_errors = [],
        doc_deprecated = [''The field old is deprecated''] \<rparr>]"
  "validateDocuments ex_env s [GSource ''query { missing }'' ''missing.graphql''] vo =
     [\<lparr> doc_source = GSource ''query { missing }'' ''missing.graphql'',
        doc_errors = [''Cannot query field missing''], doc_deprecated = [] \<rparr>]"
  by (simp_all add: ex_env_def)

theorem runValidate_throws_iff_witness:
  "throws (runValidate ex_env [GSource ''query { missing }'' ''missing.graphql''] ex_schema (ex_options False))
   \<and> throws (runValidate ex_env [GSource ''query { old }'' ''old.graphql''] ex_schema (ex_options True))
   \<and> \<not> throws (runValidate ex_env [GSource ''query { old }'' ''old.graphql''] ex_schema (ex_options False))
   \<and> \<not> throws (runValidate ex_env [] ex_schema (ex_options True))"
proof -
  have a: "throws (runValidate ex_env [GSource ''query { missing }'' ''missing.graphql''] ex_schema (ex_options False))"
    using runValidate_throws_iff [of ex_env "[GSource ''query { missing }'' ''missing.graphql'']" ex_schema "ex_options False"]
    by (simp add: ex_validate)
  have b: "throws (runValidate ex_env [GSource ''query { old }'' ''old.graphql''] ex_schema (ex_options True))"
    using runValidate_throws_iff [of ex_env "[GSource ''query { old }'' ''old.graphql'']" ex_schema "ex_options True"]
    by (simp add: ex_validate ex_options_def)
  have c: "\<not> throws (runValidate ex_env [GSource ''query { old }'' ''old.graphql''] ex_schema (ex_options False))"
    using runValidate_throws_iff [of ex_env "[GSource ''query { old }'' ''old.graphql'']" ex_schema "ex_options False"]
    by (simp add: ex_validate ex_options_def)
  have d: "\<not> throws (runValidate ex_env [] ex_schema (ex_options True))"
    using runValidate_throws_iff [of ex_env "[]" ex_schema "ex_options True"]
    by (simp add: ex_env_def)
  from a b c d show ?thesis by blast
qed

section \<open>The options of the validator\<close>

lemma validatorOptions_simps:
  "strictFragments (validatorOptions options) = (\<not> opt_noStrictFragments options)"
  "apollo (validatorOptions options) = (opt_apollo options = Some True)"
  "keepClientFields (validatorOptions options) = (opt_keepClientFields options = Some True)"
  "maxDepth (validatorOptions options) =
     (if opt_maxDepth options = Some 0 then None else opt_maxDepth options)"
  by (auto simp: validatorOptions_def split: option.splits)

lemma dispatch_validate:
  assumes "isValidateCommand command"
    and "ctx_documents ctx \<noteq> None \<or> truthy_pointer (cmd_documents command)"
    and "taskDocuments ctx command = Inr documents"
  shows "dispatch env ctx taskName command =
           io_then (emit [newline @ chalk env BgBlueWhite '' command '', chalk env Bold taskName])
             (runValidate env (toSources env documents) (ctx_schema ctx) (validateOptions command))"
  using assms
  by (auto simp: dispatch_def isValidateCommand_def isDiffCommand_def isCoverageCommand_def
      io_bind_def io_await_def split: prod.splits)

text \<open>
  C7. The options \<open>runValidate\<close> hands to the validator: \<open>strictFragments\<close> is the
  negation of \<open>noStrictFragments\<close>, \<open>apollo\<close> and \<open>keepClientFields\<close> are false when
  unset, and an unset \<open>maxDepth\<close> stays unset. A validate command of the pipeline calls
  \<open>runValidate\<close> with options under which validation is strict unless the command sets
  \<open>noStrictFragments\<close>, \<open>apollo\<close> is false unless the command sets it,
  \<open>keepClientFields\<close> is false and \<open>maxDepth\<close> is unset.
\<close>

theorem validator_receives_defaults:
  "runValidate env documents schema options =
     validateReport env options
       (validateDocuments env schema documents (validatorOptions options))
   \<and> strictFragments (validatorOptions options) = (\<not> opt_noStrictFragments options)
   \<and> (opt_apollo options = None \<longrightarrow> \<not> apollo (validatorOptions options))
   \<and> (opt_keepClientFields options = None \<longrightarrow> \<not> keepClientFields (validatorOptions options))
   \<and> (opt_maxDepth options = None \<longrightarrow> maxDepth (validatorOptions options) = None)
   \<and> (isValidateCommand command \<longrightarrow>
        (ctx_documents ctx \<noteq> None \<or> truthy_pointer (cmd_documents command)) \<longrightarrow>
        taskDocuments ctx command = Inr loaded \<longrightarrow>
        dispatch env ctx taskName command =
          io_then (emit [newline @ chalk env BgBlueWhite '' command '', chalk env Bold taskName])
            (runValidate env (toSources env loaded) (ctx_schema ctx) (validateOptions command)))
   \<and> strictFragments (validatorOptions (validateOptions command)) =
        (cmd_noStrictFragments command \<noteq> Some True)
   \<and> (cmd_noStrictFragments command = None \<longrightarrow>
        strictFragments (validatorOptions (validateOptions command)))
   \<and> (cmd_apollo command = None \<longrightarrow> \<not> apollo (validatorOptions (validateOptions command)))
   \<and> \<not> keepClientFields (validatorOptions (validateOptions command))
   \<and> maxDepth (validatorOptions (validateOptions command)) = None"
proof -
  have run: "runValidate env documents schema options =
     validateReport env options
       (validateDocuments env schema documents (validatorOptions options))"
    by (simp add: runValidate_def)
  have direct: "strictFragments (validatorOptions options) = (\<not> opt_noStrictFragments options)"
    "opt_apollo options = None \<longrightarrow> \<not> apollo (validatorOptions options)"
    "opt_keepClientFields options = None \<longrightarrow> \<not> keepClientFields (validatorOptions options)"
    "opt_maxDepth options = None \<longrightarrow> maxDepth (validatorOptions options) = None"
    by (simp_all add: validatorOptions_simps)
  have piped: "strictFragments (validatorOptions (validateOptions command)) =
        (cmd_noStrictFragments command \<noteq> Some True)"
    "cmd_noStrictFragments command = None \<longrightarrow>
        strictFragments (validatorOptions (validateOptions command))"
    "cmd_apollo command = None \<longrightarrow> \<not> apollo (validatorOptions (validateOptions command))"
    "\<not> keepClientFields (validatorOptions (validateOptions command))"
    "maxDepth (validatorOptions (validateOptions command)) = None"
    by (auto simp: validatorOptions_simps validateOptions_def pick_def split: option.splits)
  from run direct piped dispatch_validate show ?thesis
    by blast
qed

theorem validator_receives_defaults_witness:
  "strictFragments (validatorOptions (ex_options False))
   \<and> \<not> apollo (validatorOptions (ex_options False))
   \<and> \<not> keepClientFields (validatorOptions (ex_options False))
   \<and> maxDepth (validatorOptions (ex_options False)) = None
   \<and> dispatch ex_env ex_ctx ''docs'' ex_validate_command =
        io_then (emit [newline @ '' command '', ''docs''])
          (runValidate ex_env [GSource ''query { user }'' ''user.graphql''] ex_schema
             (validateOptions ex_validate_command))
   \<and> strictFragments (validatorOptions (validateOptions ex_validate_command))
   \<and> \<not> apollo (validatorOptions (validateOptions ex_validate_command))"
proof -
  have docs: "taskDocuments ex_ctx ex_validate_command =
      Inr [\<lparr> src_document = DocumentNode ''query { user }'', src_location = ''user.graphql'' \<rparr>]"
    by (simp add: taskDocuments_def ex_ctx_def ex_project_def)
  have tag: "isValidateCommand ex_validate_command"
    "truthy_pointer (cmd_documents ex_validate_command)"
    "cmd_noStrictFragments ex_validate_command = None"
    "cmd_apollo ex_validate_command = None"
    by (simp_all add: isValidateCommand_def ex_validate_command_def no_command_def)
  have opts: "opt_apollo (ex_options False) = None" "opt_keepClientFields (ex_options False) = None"
    "opt_maxDepth (ex_options False) = None" "\<not> opt_noStrictFragments (ex_options False)"
    by (simp_all add: ex_options_def)
  have env: "chalk ex_env BgBlueWhite '' command '' = '' command ''" "chalk ex_env Bold ''docs'' = ''docs''"
    "toSources ex_env [\<lparr> src_document = DocumentNode ''query { user }'', src_location = ''user.graphql'' \<rparr>]
       = [GSource ''query { user }'' ''user.graphql'']"
    "ctx_schema ex_ctx = ex_schema"
    by (simp_all add: ex_env_def toSources_def ex_ctx_def)
  show ?thesis
    using validator_receives_defaults [of ex_env "[]" ex_schema "ex_options False"
        ex_validate_command ex_ctx
        "[\<lparr> src_document = DocumentNode ''query { user }'', src_location = ''user.graphql'' \<rparr>]"
        "''docs''"] docs tag opts env
    by simp
qed

section \<open>Shorthand and explicit commands\<close>

lemma spread_command_tag:
  "cmd_command (spread_command name config) =
     (case cmd_command config of None \<Rightarrow> Some name | Some tag \<Rightarrow> Some tag)"
  by (simp add: spread_command_def split: option.splits)

lemma transformCommand_tagged:
  "cmd_command config \<noteq> None \<Longrightarrow> transformCommand name config = config"
  by (auto simp: transformCommand_def spread_command_def split: option.splits)

lemma transformProject_single:
  "proj_extension p ''inspector'' = [(name, config)] \<Longrightarrow> name \<noteq> ''__proto__'' \<Longrightarrow>
   ic_commands (transformProject p) = [(name, transformCommand name config)]"
  by (simp add: transformProject_def obj_set_def obj_prototype_def inherited_entries_def
      for_in_def)

text \<open>
  C5, as amended. For a body that has no tag of its own, or whose tag is already the
  command name \<open>K\<close>, the shorthand entry \<open>K\<close> and an entry under a label other than
  \<open>__proto__\<close> whose body is the body with the tag \<open>K\<close> are normalized to the same
  command, tagged \<open>K\<close>; the two normalized collections differ in the label only.
\<close>

theorem shorthand_matches_explicit:
  assumes "isCommandName K"
    and "cmd_command B = None \<or> cmd_command B = Some K"
    and "L \<noteq> ''__proto__''"
  shows "transformCommand K B = transformCommand L (B\<lparr>cmd_command := Some K\<rparr>)
       \<and> cmd_command (transformCommand K B) = Some K
       \<and> (proj_extension p ''inspector'' = [(K, B)] \<longrightarrow>
          proj_extension p' ''inspector'' = [(L, B\<lparr>cmd_command := Some K\<rparr>)] \<longrightarrow>
            ic_commands (transformProject p) = [(K, transformCommand K B)]
          \<and> ic_commands (transformProject p') = [(L, transformCommand K B)])"
proof -
  have explicit: "transformCommand L (B\<lparr>cmd_command := Some K\<rparr>) = B\<lparr>cmd_command := Some K\<rparr>"
    by (rule transformCommand_tagged) simp
  have shorthand: "transformCommand K B = B\<lparr>cmd_command := Some K\<rparr>"
    using assms(1,2) by (auto simp: transformCommand_def spread_command_def)
  have K: "K \<noteq> ''__proto__''"
    using assms(1) by (auto simp: isCommandName_def supportedCommands_def)
  from explicit shorthand K assms(3) show ?thesis
    by (simp add: transformProject_single)
qed

theorem shorthand_matches_explicit_witness:
  "isCommandName ''diff''
   \<and> cmd_command (no_command\<lparr>cmd_schema := Some (Pointer ''old.graphql'')\<rparr>) = None
   \<and> ''myDiff'' \<noteq> ''__proto__''
   \<and> ic_commands (transformProject ex_short_project) =
        [(''diff'', no_command\<lparr>cmd_command := Some ''diff'',
                                cmd_schema := Some (Pointer ''old.graphql'')\<rparr>)]
   \<and> ic_commands (transformProject ex_explicit_project) =
        [(''myDiff'', no_command\<lparr>cmd_command := Some ''diff'',
                                  cmd_schema := Some (Pointer ''old.graphql'')\<rparr>)]"
proof -
  have name: "isCommandName ''diff''"
    by (simp add: isCommandName_def supportedCommands_def)
  have body: "cmd_command (no_command\<lparr>cmd_schema := Some (Pointer ''old.graphql'')\<rparr>) = None"
    by (simp add: no_command_def)
  have label: "''myDiff'' \<noteq> ''__proto__''"
    by simp
  have raw: "proj_extension ex_short_project ''inspector'' =
               [(''diff'', no_command\<lparr>cmd_schema := Some (Pointer ''old.graphql'')\<rparr>)]"
    "proj_extension ex_explicit_project ''inspector'' =
       [(''myDiff'', (no_command\<lparr>cmd_schema := Some (Pointer ''old.graphql'')\<rparr>)
                      \<lparr>cmd_command := Some ''diff''\<rparr>)]"
    by (simp_all add: ex_short_project_def ex_explicit_project_def)
  have spec: "transformCommand ''diff'' (no_command\<lparr>cmd_schema := Some (Pointer ''old.graphql'')\<rparr>)
      = no_command\<lparr>cmd_command := Some ''diff'', cmd_schema := Some (Pointer ''old.graphql'')\<rparr>"
    using name by (simp add: transformCommand_def spread_command_def no_command_def)
  show ?thesis
    using shorthand_matches_explicit [of "''diff''"
        "no_command\<lparr>cmd_schema := Some (Pointer ''old.graphql'')\<rparr>" "''myDiff''"
        ex_short_project ex_explicit_project] name body label raw spec
    by simp
qed

text \<open>
  The claim as stated fails in two ways. A body that has another tag keeps it under the
  shorthand label: the entry \<open>diff\<close> with the body \<open>{command: coverage}\<close> is normalized to
  a coverage command, and the entry \<open>myDiff\<close> with that body and the tag \<open>diff\<close> to a diff
  command. And the label of the explicit entry matters: the shorthand entry \<open>diff\<close> with
  the body \<open>{schema: old.graphql}\<close> is normalized to a diff command, but under the label
  \<open>__proto__\<close> the body with the tag \<open>diff\<close> becomes the prototype of the collection,
  which then has the entries \<open>command\<close> and \<open>schema\<close>, two strings, and no diff command.
\<close>

theorem shorthand_matches_explicit_counterexample:
  "transformCommand ''diff'' (no_command\<lparr>cmd_command := Some ''coverage''\<rparr>)
     \<noteq> transformCommand ''myDiff''
         ((no_command\<lparr>cmd_command := Some ''coverage''\<rparr>)\<lparr>cmd_command := Some ''diff''\<rparr>)
   \<and> ic_commands (transformProject ex_short_project) =
        [(''diff'', no_command\<lparr>cmd_command := Some ''diff'',
                                cmd_schema := Some (Pointer ''old.graphql'')\<rparr>)]
   \<and> proj_extension ex_proto_project ''inspector'' =
        [(''__proto__'', (no_command\<lparr>cmd_schema := Some (Pointer ''old.graphql'')\<rparr>)
                           \<lparr>cmd_command := Some ''diff''\<rparr>)]
   \<and> ic_commands (transformProject ex_proto_project) =
        [(''command'', no_command), (''schema'', no_command)]"
proof -
  have "cmd_command (transformCommand ''diff'' (no_command\<lparr>cmd_command := Some ''coverage''\<rparr>))
          = Some ''coverage''"
    by (simp add: transformCommand_def isCommandName_def supportedCommands_def
        spread_command_def no_command_def)
  moreover have "cmd_command (transformCommand ''myDiff''
         ((no_command\<lparr>cmd_command := Some ''coverage''\<rparr>)\<lparr>cmd_command := Some ''diff''\<rparr>))
          = Some ''diff''"
    by (simp add: transformCommand_def isCommandName_def supportedCommands_def no_command_def)
  ultimately have tagged:
    "transformCommand ''diff'' (no_command\<lparr>cmd_command := Some ''coverage''\<rparr>)
     \<noteq> transformCommand ''myDiff''
         ((no_command\<lparr>cmd_command := Some ''coverage''\<rparr>)\<lparr>cmd_command := Some ''diff''\<rparr>)"
    by auto
  have short: "ic_commands (transformProject ex_short_project) =
        [(''diff'', no_command\<lparr>cmd_command := Some ''diff'',
                                cmd_schema := Some (Pointer ''old.graphql'')\<rparr>)]"
    by (simp add: transformProject_single [of _ "''diff''"
          "no_command\<lparr>cmd_schema := Some (Pointer ''old.graphql'')\<rparr>"]
        ex_short_project_def transformCommand_def isCommandName_def supportedCommands_def
        spread_command_def no_command_def)
  have raw: "proj_extension ex_proto_project ''inspector'' =
        [(''__proto__'', (no_command\<lparr>cmd_schema := Some (Pointer ''old.graphql'')\<rparr>)
                           \<lparr>cmd_command := Some ''diff''\<rparr>)]"
    by (simp add: ex_proto_project_def no_command_def)
  have keys: "remdups (filter (has_field (no_command\<lparr>cmd_command := Some ''diff'',
                    cmd_schema := Some (Pointer ''old.graphql'')\<rparr>))
                (ex_keys (no_command\<lparr>cmd_command := Some ''diff'',
                    cmd_schema := Some (Pointer ''old.graphql'')\<rparr>))) = [''command'', ''schema'']"
    by (simp add: ex_keys_def has_field_def command_fields_def no_command_def)
  have proto: "ic_commands (transformProject ex_proto_project) =
        [(''command'', no_command), (''schema'', no_command)]"
    by (simp add: transformProject_def ex_proto_project_def ex_project_def obj_set_def
        obj_prototype_def transformCommand_def isCommandName_def supportedCommands_def
        inherited_entries_def for_in_def keys)
  from tagged short raw proto show ?thesis
    by simp
qed

section \<open>The similar command: what it writes\<close>

text \<open>
  C10. When the similarity map is empty, \<open>runSimilar\<close> sends the one line
  \<open>No similar types found\<close> and returns: whatever the \<open>write\<close> option is, no file is
  written and no error of the write step is thrown.
\<close>

theorem runSimilar_empty_map:
  assumes "findSimilar env schema name threshold = []"
  shows "runSimilar env schema name threshold write_opt =
           ([Render (Emit [newline @ ''No similar types found''])], Inr ())
       \<and> written (fst (runSimilar env schema name threshold write_opt)) = []
       \<and> \<not> throws (runSimilar env schema name threshold write_opt)"
  using assms by (simp add: runSimilar_def emit_def written_def throws_def)

theorem runSimilar_empty_map_witness:
  "findSimilar ex_env ex_schema (Some ''Nothing'') None = []
   \<and> \<not> isValidPath ex_env ''out/*.txt''
   \<and> runSimilar ex_env ex_schema (Some ''Nothing'') None (Some ''out/*.txt'') =
        ([Render (Emit [newline @ ''No similar types found''])], Inr ())
   \<and> runSimilar ex_env ex_schema (Some ''Nothing'') None (Some ''similar.txt'') =
        ([Render (Emit [newline @ ''No similar types found''])], Inr ())"
proof -
  have empty: "findSimilar ex_env ex_schema (Some ''Nothing'') None = []"
    by (simp add: ex_env_def)
  have invalid: "\<not> isValidPath ex_env ''out/*.txt''"
    by (simp add: ex_env_def)
  show ?thesis
    using runSimilar_empty_map [OF empty, of "Some ''out/*.txt''"]
      runSimilar_empty_map [OF empty, of "Some ''similar.txt''"] empty invalid
    by simp
qed


lemma rendered_append: "rendered (es @ es') = rendered es @ rendered es'"
  by (simp add: rendered_def)










lemma update_fresh:
  "key \<notin> fst ` set al \<Longrightarrow> AList.update key v al = al @ [(key, v)]"
  by (induction al) auto

lemma fold_update_distinct:
  assumes "distinct (map fst xs)" and "fst ` set xs \<inter> fst ` set acc = {}"
  shows "fold (\<lambda>(key, v) obj. AList.update key (g key v) obj) xs acc =
           acc @ map (\<lambda>(key, v). (key, g key v)) xs"
  using assms
proof (induction xs arbitrary: acc)
  case Nil
  then show ?case by simp
next
  case (Cons x xs)
  obtain key v where x: "x = (key, v)" by (cases x)
  from Cons.prems x have fresh: "key \<notin> fst ` set acc" by auto
  have step: "AList.update key (g key v) acc = acc @ [(key, g key v)]"
    using fresh by (simp add: update_fresh)
  have "fst ` set xs \<inter> fst ` set (acc @ [(key, g key v)]) = {}"
    using Cons.prems x by (auto simp: image_iff)
  with Cons.IH [of "acc @ [(key, g key v)]"] Cons.prems x step show ?case
    by simp
qed

lemma fold_obj_set_filter:
  "fold (\<lambda>(key, v) obj. obj_set key (g key v) obj) xs acc =
   fold (\<lambda>(key, v) obj. AList.update key (g key v) obj)
     (filter (\<lambda>(key, v). key \<noteq> ''__proto__'') xs) acc"
  by (induction xs arbitrary: acc) (auto simp: obj_set_def)

lemma fold_obj_set_distinct:
  assumes "distinct (map fst xs)" and "fst ` set xs \<inter> fst ` set acc = {}"
  shows "fold (\<lambda>(key, v) obj. obj_set key (g key v) obj) xs acc =
           acc @ map (\<lambda>(key, v). (key, g key v)) (filter (\<lambda>(key, v). key \<noteq> ''__proto__'') xs)"
proof -
  have "distinct (map fst (filter (\<lambda>(key, v). key \<noteq> ''__proto__'') xs))"
    using assms(1) by (simp add: distinct_map_filter)
  moreover have "fst ` set (filter (\<lambda>(key, v). key \<noteq> ''__proto__'') xs) \<inter> fst ` set acc = {}"
    using assms(2) by auto
  ultimately show ?thesis
    unfolding fold_obj_set_filter by (rule fold_update_distinct)
qed

lemma result_map_distinct:
  assumes "distinct (map fst similarMap)"
  shows "result_map similarMap =
           map (\<lambda>(typename, result). (typename, transformMatches result))
             (filter (\<lambda>(typename, result). typename \<noteq> ''__proto__'') similarMap)"
  unfolding result_map_def
  using fold_obj_set_distinct [OF assms, of "[]" "\<lambda>typename result. transformMatches result"]
  by simp





subsection \<open>The written text is read back as the map\<close>
















subsection \<open>The write step\<close>







section \<open>The concurrent list: what no schedule changes\<close>

lemma create_tasks_from:
  "fold (\<lambda>(taskName, command) (rs, tasks).
           (rs @ [[]], tasks @ [command_task env ctx taskName command]))
     commands (rs0, tasks0) =
   (rs0 @ replicate (length commands) [],
    tasks0 @ map (\<lambda>(taskName, command). command_task env ctx taskName command) commands)"
proof (induction commands arbitrary: rs0 tasks0)
  case Nil
  then show ?case by simp
next
  case (Cons entry commands)
  obtain taskName command where entry: "entry = (taskName, command)" by (cases entry)
  show ?case
    by (simp add: entry Cons.IH replicate_app_Cons_same)
qed

lemma create_tasks_eq:
  "create_tasks env ctx commands =
     (replicate (length commands) [],
      map (\<lambda>(taskName, command). command_task env ctx taskName command) commands)"
  unfolding create_tasks_def new_buffer_def by (simp add: create_tasks_from)

lemma perform_pending [simp]: "pending (perform i a st) = pending st"
  by (cases "(i, a, st)" rule: perform.cases) simp_all

lemma step_pending:
  "pending (step i st) =
     (if i < length (pending st) then (pending st)[i := tl (pending st ! i)] else pending st)"
  by (auto simp: step_def split: list.splits) (metis list_update_id)

lemma lines_kept_iff:
  "lines_kept outputs st \<longleftrightarrow>
     length (renderers st) = length outputs \<and> length (pending st) = length outputs \<and>
     (\<forall>i < length outputs. renderers st ! i @ action_lines (pending st ! i) = outputs ! i)"
  by (auto simp: lines_kept_def list_all_iff)

lemma flag_kept_iff:
  "flag_kept all_ok st \<longleftrightarrow> ((ok st \<and> (\<forall>as \<in> set (pending st). NotOk \<notin> set as)) = all_ok)"
  by (simp add: flag_kept_def list_all_iff)

lemma action_lines_Cons:
  "action_lines (Do (Render l) # as) = l # action_lines as"
  "action_lines (Do (WriteFile p t) # as) = action_lines as"
  "action_lines (NotOk # as) = action_lines as"
  "action_lines [] = []"
  by (simp_all add: action_lines_def)

lemma step_lines_kept:
  assumes "lines_kept outputs st"
  shows "lines_kept outputs (step i st)"
proof (cases "i < length (pending st)")
  case False
  with assms show ?thesis by (simp add: step_def)
next
  case True
  show ?thesis
  proof (cases "pending st ! i")
    case Nil
    with assms True show ?thesis by (simp add: step_def)
  next
    case (Cons a as)
    have step: "step i st = perform i a (st\<lparr>pending := (pending st)[i := as]\<rparr>)"
      using True Cons by (simp add: step_def)
    show ?thesis
    proof (cases a)
      case (Do e)
      show ?thesis
      proof (cases e)
        case (Render l)
        with assms True Cons Do show ?thesis
          unfolding step lines_kept_iff
          by (auto simp: nth_list_update buffer_call_def action_lines_Cons)
      next
        case (WriteFile p t)
        with assms True Cons Do show ?thesis
          unfolding step lines_kept_iff
          by (auto simp: nth_list_update action_lines_Cons)
      qed
    next
      case NotOk
      with assms True Cons show ?thesis
        unfolding step lines_kept_iff
        by (auto simp: nth_list_update action_lines_Cons)
    qed
  qed
qed

lemma all_after_update:
  "i < length p \<Longrightarrow>
   (\<forall>bs \<in> set (p[i := y]). P bs) \<longleftrightarrow> P y \<and> (\<forall>k < length p. k \<noteq> i \<longrightarrow> P (p ! k))"
  by (auto simp: all_set_conv_all_nth nth_list_update)

lemma all_with_nth:
  "i < length p \<Longrightarrow>
   (\<forall>bs \<in> set p. P bs) \<longleftrightarrow> P (p ! i) \<and> (\<forall>k < length p. k \<noteq> i \<longrightarrow> P (p ! k))"
  by (auto simp: all_set_conv_all_nth)

lemma step_flag_kept:
  assumes "flag_kept all_ok st"
  shows "flag_kept all_ok (step i st)"
proof (cases "i < length (pending st)")
  case False
  with assms show ?thesis by (simp add: step_def)
next
  case True
  show ?thesis
  proof (cases "pending st ! i")
    case Nil
    with assms True show ?thesis by (simp add: step_def)
  next
    case (Cons a as)
    have step: "step i st = perform i a (st\<lparr>pending := (pending st)[i := as]\<rparr>)"
      using True Cons by (simp add: step_def)
    have before: "(\<forall>bs \<in> set (pending st). NotOk \<notin> set bs) \<longleftrightarrow>
        a \<noteq> NotOk \<and> NotOk \<notin> set as \<and>
        (\<forall>k < length (pending st). k \<noteq> i \<longrightarrow> NotOk \<notin> set (pending st ! k))"
      using all_with_nth [OF True, of "\<lambda>bs. NotOk \<notin> set bs"] Cons by auto
    have after: "(\<forall>bs \<in> set ((pending st)[i := as]). NotOk \<notin> set bs) \<longleftrightarrow>
        NotOk \<notin> set as \<and>
        (\<forall>k < length (pending st). k \<noteq> i \<longrightarrow> NotOk \<notin> set (pending st ! k))"
      using all_after_update [OF True, of as "\<lambda>bs. NotOk \<notin> set bs"] by simp
    show ?thesis
    proof (cases a)
      case (Do e)
      with assms show ?thesis
        unfolding step flag_kept_iff by (cases e) (simp_all add: before after)
    next
      case NotOk
      with assms show ?thesis
        unfolding step flag_kept_iff by (simp add: before)
    qed
  qed
qed

lemma steps_kept:
  assumes "lines_kept outputs st" and "flag_kept all_ok st"
  shows "lines_kept outputs (fold step schedule st) \<and> flag_kept all_ok (fold step schedule st)"
  using assms by (induction schedule arbitrary: st) (simp_all add: step_lines_kept step_flag_kept)

lemma finish_kept:
  assumes "lines_kept outputs st" and "flag_kept all_ok st"
  shows "lines_kept outputs (finish i st) \<and> flag_kept all_ok (finish i st)"
proof -
  have "lines_kept outputs (fold (\<lambda>a. step i) as st) \<and> flag_kept all_ok (fold (\<lambda>a. step i) as st)"
    for as
    using assms by (induction as arbitrary: st) (simp_all add: step_lines_kept step_flag_kept)
  then show ?thesis by (simp add: finish_def)
qed

lemma finish_pending:
  assumes "i < length (pending st)"
  shows "pending (finish i st) = (pending st)[i := []]"
proof -
  have "pending st ! i = as \<Longrightarrow> i < length (pending st) \<Longrightarrow>
        pending (fold (\<lambda>a. step i) as st) = (pending st)[i := []]" for as
  proof (induction as arbitrary: st)
    case Nil
    then show ?case by (metis fold_simps(1) list_update_id)
  next
    case (Cons a as)
    have next_pending: "pending (step i st) = (pending st)[i := as]"
      using Cons.prems by (simp add: step_pending)
    have "pending (fold (\<lambda>a. step i) as (step i st)) = (pending (step i st))[i := []]"
      using Cons.prems by (intro Cons.IH) (simp_all add: next_pending)
    then show ?case by (simp add: next_pending)
  qed
  with assms show ?thesis by (simp add: finish_def)
qed

lemma finishes_kept:
  assumes "lines_kept outputs st" and "flag_kept all_ok st"
  shows "lines_kept outputs (fold finish is st) \<and> flag_kept all_ok (fold finish is st)"
  using assms by (induction "is" arbitrary: st) (simp_all add: finish_kept)

lemma finishes_pending:
  assumes "\<forall>k \<in> set is. k < length (pending st)"
    and "j < length (pending st)"
    and "j \<in> set is \<or> pending st ! j = []"
  shows "pending (fold finish is st) ! j = [] \<and>
         length (pending (fold finish is st)) = length (pending st)"
  using assms
proof (induction "is" arbitrary: st)
  case Nil
  then show ?case by simp
next
  case (Cons i "is")
  have p: "pending (finish i st) = (pending st)[i := []]"
    using Cons.prems by (simp add: finish_pending)
  have "pending (fold finish is (finish i st)) ! j = [] \<and>
        length (pending (fold finish is (finish i st))) = length (pending (finish i st))"
  proof (rule Cons.IH)
    show "\<forall>k \<in> set is. k < length (pending (finish i st))"
      using Cons.prems by (simp add: p)
    show "j < length (pending (finish i st))"
      using Cons.prems by (simp add: p)
    show "j \<in> set is \<or> pending (finish i st) ! j = []"
      using Cons.prems by (auto simp: p nth_list_update)
  qed
  then show ?case by (simp add: p)
qed

lemma settle_pending:
  assumes "j < length (pending st)"
  shows "pending (settle st) ! j = []" and "length (pending (settle st)) = length (pending st)"
  using finishes_pending [of "[0..<length (pending st)]" st j] assms
  by (simp_all add: settle_def)

lemma settled:
  assumes "lines_kept outputs st" and "flag_kept all_ok st"
  shows "renderers (settle st) = outputs" and "ok (settle st) = all_ok"
proof -
  have kept: "lines_kept outputs (settle st)" "flag_kept all_ok (settle st)"
    using finishes_kept [OF assms] by (simp_all add: settle_def)
  have n: "length (pending st) = length outputs"
    using assms(1) by (simp add: lines_kept_iff)
  have emptied: "pending (settle st) ! j = []" if "j < length outputs" for j
    using settle_pending(1) [of j st] that n by simp
  have len: "length (pending (settle st)) = length outputs"
    using settle_pending(2) [of 0 st] n kept(1) by (simp add: lines_kept_iff)
  show "renderers (settle st) = outputs"
  proof (rule nth_equalityI)
    show "length (renderers (settle st)) = length outputs"
      using kept(1) by (simp add: lines_kept_iff)
    fix i assume "i < length (renderers (settle st))"
    then have i: "i < length outputs"
      using kept(1) by (simp add: lines_kept_iff)
    with kept(1) emptied [OF i] show "renderers (settle st) ! i = outputs ! i"
      by (auto simp: lines_kept_iff action_lines_Cons)
  qed
  have "\<forall>as \<in> set (pending (settle st)). NotOk \<notin> set as"
    using emptied len by (metis empty_iff empty_set in_set_conv_nth)
  with kept(2) show "ok (settle st) = all_ok"
    by (simp add: flag_kept_iff)
qed

lemma listr_concurrent_result:
  assumes "length rs = length tasks" and "\<forall>r \<in> set rs. r = []"
  shows "renderers (listr_concurrent schedule tasks
            \<lparr> renderers = rs, ok = True, files = [], pending = [] \<rparr>)
           = map (\<lambda>task. action_lines (task_actions task)) tasks"
    and "ok (listr_concurrent schedule tasks
            \<lparr> renderers = rs, ok = True, files = [], pending = [] \<rparr>)
           = (\<forall>task \<in> set tasks. NotOk \<notin> set (task_actions task))"
proof -
  let ?st = "\<lparr> renderers = rs, ok = True, files = [], pending = map task_actions tasks \<rparr>"
  let ?outputs = "map (\<lambda>task. action_lines (task_actions task)) tasks"
  have start: "lines_kept ?outputs ?st"
    using assms by (simp add: lines_kept_iff)
  have flag: "flag_kept (\<forall>task \<in> set tasks. NotOk \<notin> set (task_actions task)) ?st"
    by (simp add: flag_kept_iff)
  have kept: "lines_kept ?outputs (fold step schedule ?st)"
    "flag_kept (\<forall>task \<in> set tasks. NotOk \<notin> set (task_actions task)) (fold step schedule ?st)"
    using steps_kept [OF start flag, of schedule] by simp_all
  show "renderers (listr_concurrent schedule tasks
            \<lparr> renderers = rs, ok = True, files = [], pending = [] \<rparr>) = ?outputs"
    using settled(1) [OF kept] by (simp add: listr_concurrent_def)
  show "ok (listr_concurrent schedule tasks
            \<lparr> renderers = rs, ok = True, files = [], pending = [] \<rparr>)
           = (\<forall>task \<in> set tasks. NotOk \<notin> set (task_actions task))"
    using settled(2) [OF kept] by (simp add: listr_concurrent_def)
qed

lemma action_lines_Do: "action_lines (map Do es) = rendered es"
proof (induction es)
  case Nil
  then show ?case by (simp add: action_lines_def rendered_def)
next
  case (Cons e es)
  then show ?case by (cases e) (simp_all add: action_lines_def rendered_def)
qed

lemma action_lines_append: "action_lines (as @ bs) = action_lines as @ action_lines bs"
  by (simp add: action_lines_def)

lemma command_task_lines:
  "action_lines (task_actions (command_task env ctx taskName command)) =
     task_lines env ctx (taskName, command)"
  by (auto simp: command_task_def task_lines_def action_lines_Do action_lines_append
      action_lines_Cons split: prod.splits sum.splits)

lemma command_task_fails:
  "NotOk \<in> set (task_actions (command_task env ctx taskName command)) \<longleftrightarrow>
     task_fails env ctx (taskName, command)"
proof (cases "dispatch env ctx taskName command")
  case (Pair es r)
  then show ?thesis
    by (cases r) (auto simp: command_task_def task_fails_def throws_def)
qed

lemma fan_out_renderers:
  "renderers (fan_out env ctx schedule commands) = map (task_lines env ctx) commands"
proof -
  have "renderers (fan_out env ctx schedule commands) =
          map (\<lambda>task. action_lines (task_actions task))
            (map (\<lambda>(taskName, command). command_task env ctx taskName command) commands)"
    unfolding fan_out_def create_tasks_eq
    by (simp add: listr_concurrent_result(1))
  also have "\<dots> = map (task_lines env ctx) commands"
    by (auto simp: command_task_lines)
  finally show ?thesis .
qed

lemma fan_out_ok:
  "ok (fan_out env ctx schedule commands) \<longleftrightarrow> (\<forall>entry \<in> set commands. \<not> task_fails env ctx entry)"
proof -
  have "ok (fan_out env ctx schedule commands) \<longleftrightarrow>
          (\<forall>task \<in> set (map (\<lambda>(taskName, command). command_task env ctx taskName command) commands).
             NotOk \<notin> set (task_actions task))"
    unfolding fan_out_def create_tasks_eq
    by (simp add: listr_concurrent_result(2))
  also have "\<dots> \<longleftrightarrow> (\<forall>entry \<in> set commands. \<not> task_fails env ctx entry)"
    by (auto simp: command_task_fails)
  finally show ?thesis .
qed

section \<open>The pipeline: setup, tasks and flush\<close>

lemma fold_buffer_print: "fold buffer_print rs console = console @ concat rs"
  by (induction rs arbitrary: console) (simp_all add: buffer_print_def)

lemma run_after_setup:
  assumes "setup_stages env options = Inr ctx"
  shows "printed (run env schedule options) =
           concat (map (task_lines env ctx) (ic_commands (transformProject (ctx_project ctx))))"
    and "exit_code (run env schedule options) =
           (if \<exists>entry \<in> set (ic_commands (transformProject (ctx_project ctx))).
                 task_fails env ctx entry
            then Some 1 else None)"
    and "reported (run env schedule options) =
           (if \<exists>entry \<in> set (ic_commands (transformProject (ctx_project ctx))).
                 task_fails env ctx entry
            then [Err (Inl ''Something went wrong - check the above report''), Emit [newline]]
            else [])"
  using assms
  by (simp_all add: run_def Let_def running_commands_def fan_out_renderers fan_out_ok
      fold_buffer_print error_arg_def)

lemma run_setup_failed:
  assumes "setup_stages env options = Inl error"
  shows "run env schedule options =
           \<lparr> printed = [], reported = [Err (error_arg error), Emit [newline]],
             exit_code = Some 1 \<rparr>"
  using assms by (simp add: run_def)

lemma task_lines_thrown:
  assumes "dispatch env ctx taskName command = (es, Inl error)"
  shows "task_lines env ctx (taskName, command) = rendered es @ [Err (error_arg error)]"
    and "task_fails env ctx (taskName, command)"
  using assms by (simp_all add: task_lines_def task_fails_def throws_def)

lemma dispatch_banner_then:
  "dispatch env ctx taskName command =
     (case dispatch env ctx taskName command of (es, r) \<Rightarrow> (Render (banner env taskName) # tl es, r))"
  by (auto simp: dispatch_def banner_def emit_def io_then_def io_bind_def split: prod.splits)

lemma dispatch_missing_documents:
  assumes "isCoverageCommand command \<or> isValidateCommand command"
    and "ctx_documents ctx = None" and "\<not> truthy_pointer (cmd_documents command)"
  shows "dispatch env ctx taskName command =
           ([Render (banner env taskName)], Inl (Error ''Documents are missing''))"
  using assms
  by (auto simp: dispatch_def banner_def emit_def io_then_def io_bind_def io_throw_def
      isCoverageCommand_def isValidateCommand_def isDiffCommand_def)

lemma dispatch_unsupported:
  assumes "cmd_command command \<notin> Some ` set supportedCommands"
  shows "dispatch env ctx taskName command =
           ([Render (banner env taskName)],
            Inl (Error (''Command '' @ template (cmd_command command) @ '' not supported'')))"
proof -
  have "\<not> isDiffCommand command" "\<not> isCoverageCommand command"
    "\<not> isValidateCommand command" "\<not> isSimilarCommand command"
    using assms
    by (auto simp: supportedCommands_def isDiffCommand_def isCoverageCommand_def
        isValidateCommand_def isSimilarCommand_def)
  then show ?thesis
    by (simp add: dispatch_def banner_def emit_def io_then_def io_bind_def io_throw_def)
qed

lemma transformCommand_unknown:
  assumes "cmd_command (transformCommand name config) \<notin> Some ` set supportedCommands"
  shows "transformCommand name config = config"
proof (cases "isCommandName name")
  case False
  then show ?thesis by (simp add: transformCommand_def)
next
  case True
  show ?thesis
  proof (cases "cmd_command config")
    case None
    with True assms show ?thesis
      by (simp add: transformCommand_def spread_command_def isCommandName_def)
  next
    case (Some tag)
    then show ?thesis by (simp add: transformCommand_tagged)
  qed
qed

section \<open>The claims about the pipeline\<close>

lemma ex_setup: "setup_stages ex_env (ex_run_options None) = Inr ex_ctx"
proof -
  have config: "findAndLoadConfig ex_env None = Inr ex_config"
    by (simp add: findAndLoadConfig_def ex_env_def)
  have project: "picking_project ex_config (ex_run_options None) = Inr (ex_project ''default'')"
    by (simp add: picking_project_def ex_run_options_def ex_config_def)
  have extension: "checking_extension ex_config (ex_project ''default'') = Inr ()"
    by (simp add: checking_extension_def ex_project_def)
  have schema: "proj_getSchema (ex_project ''default'') = Inr ex_schema"
    by (simp add: ex_project_def)
  have documents: "loading_documents (ex_project ''default'') = Inr None"
    by (simp add: loading_documents_def ex_project_def)
  have options: "run_config (ex_run_options None) = None"
    by (simp add: ex_run_options_def)
  show ?thesis
    by (simp add: setup_stages_def options config project extension schema documents ex_ctx_def)
qed

lemma ex_transformProject:
  "ic_commands (transformProject (ctx_project ex_ctx)) = ex_normalized"
  by (simp add: transformProject_def ex_ctx_def ex_project_def ex_commands_def obj_set_def
      obj_prototype_def inherited_entries_def for_in_def
      transformCommand_def isCommandName_def supportedCommands_def spread_command_def
      no_command_def ex_normalized_def)

lemma ex_banner: "banner ex_env taskName = Emit [newline @ '' command '', taskName]"
  by (simp add: banner_def ex_env_def)

lemma ex_dispatch_diff:
  "dispatch ex_env ex_ctx ''diff'' (snd (ex_normalized ! 0)) =
     ([Render (Emit [newline @ '' command '', ''diff'']), Render (Emit [''Detected 1 change''])],
      Inl (Error ''Detected 1 breaking change''))"
  by (simp add: ex_normalized_def dispatch_def isDiffCommand_def no_command_def ex_ctx_def
      ex_project_def ex_env_def ex_schema_def io_then_def io_bind_def io_await_def emit_def)

lemma ex_dispatch_similar:
  "dispatch ex_env ex_ctx ''similar'' (snd (ex_normalized ! 3)) =
     ([Render (Emit [newline @ '' command '', ''similar'']),
       Render (Emit [newline @ ''No similar types found''])], Inr ())"
  by (simp add: ex_normalized_def dispatch_def isDiffCommand_def isCoverageCommand_def
      isValidateCommand_def isSimilarCommand_def no_command_def ex_ctx_def
      ex_env_def io_then_def io_bind_def emit_def runSimilar_def)

lemma ex_task_lines:
  "map (task_lines ex_env ex_ctx) ex_normalized =
     [[Emit [newline @ '' command '', ''diff''], Emit [''Detected 1 change''],
       Err (Inl ''Detected 1 breaking change'')],
      [Emit [newline @ '' command '', ''docs''], Err (Inl ''Documents are missing'')],
      [Emit [newline @ '' command '', ''lint''], Err (Inl ''Command lint not supported'')],
      [Emit [newline @ '' command '', ''similar''], Emit [newline @ ''No similar types found'']]]"
proof -
  have diff: "task_lines ex_env ex_ctx (ex_normalized ! 0) =
      [Emit [newline @ '' command '', ''diff''], Emit [''Detected 1 change''],
       Err (Inl ''Detected 1 breaking change'')]"
    using task_lines_thrown(1) [OF ex_dispatch_diff]
    by (simp add: ex_normalized_def rendered_def error_arg_def)
  have docs: "task_lines ex_env ex_ctx (ex_normalized ! 1) =
      [Emit [newline @ '' command '', ''docs''], Err (Inl ''Documents are missing'')]"
    using task_lines_thrown(1) [OF dispatch_missing_documents
        [of "snd (ex_normalized ! 1)" ex_ctx ex_env "''docs''"]]
    by (simp add: ex_normalized_def rendered_def error_arg_def isValidateCommand_def
        no_command_def ex_ctx_def ex_banner)
  have lint: "task_lines ex_env ex_ctx (ex_normalized ! 2) =
      [Emit [newline @ '' command '', ''lint''], Err (Inl ''Command lint not supported'')]"
    using task_lines_thrown(1) [OF dispatch_unsupported
        [of "snd (ex_normalized ! 2)" ex_env ex_ctx "''lint''"]]
    by (simp add: ex_normalized_def rendered_def error_arg_def supportedCommands_def
        no_command_def template_def ex_banner)
  have similar: "task_lines ex_env ex_ctx (ex_normalized ! 3) =
      [Emit [newline @ '' command '', ''similar''], Emit [newline @ ''No similar types found'']]"
    using ex_dispatch_similar
    by (simp add: task_lines_def ex_normalized_def rendered_def)
  have "map (task_lines ex_env ex_ctx) ex_normalized =
      [task_lines ex_env ex_ctx (ex_normalized ! 0), task_lines ex_env ex_ctx (ex_normalized ! 1),
       task_lines ex_env ex_ctx (ex_normalized ! 2), task_lines ex_env ex_ctx (ex_normalized ! 3)]"
    by (simp add: ex_normalized_def)
  then show ?thesis
    by (simp only: diff docs lint similar)
qed



lemma fan_out_nth:
  assumes "j < length commands"
  shows "renderers (fan_out env ctx schedule commands) ! j = task_lines env ctx (commands ! j)"
  using assms by (simp add: fan_out_renderers)

lemma fan_out_fails:
  assumes "i < length commands" and "task_fails env ctx (commands ! i)"
  shows "\<not> ok (fan_out env ctx schedule commands)"
  using assms by (auto simp: fan_out_ok)

lemma run_with_failure:
  assumes "setup_stages env options = Inr ctx"
    and "i < length (ic_commands (transformProject (ctx_project ctx)))"
    and "task_fails env ctx (ic_commands (transformProject (ctx_project ctx)) ! i)"
  shows "reported (run env schedule options) =
           [Err (Inl ''Something went wrong - check the above report''), Emit [newline]]"
    and "exit_code (run env schedule options) = Some 1"
proof -
  have "\<exists>entry \<in> set (ic_commands (transformProject (ctx_project ctx))). task_fails env ctx entry"
    using assms(2,3) by (metis nth_mem)
  then show "reported (run env schedule options) =
           [Err (Inl ''Something went wrong - check the above report''), Emit [newline]]"
    and "exit_code (run env schedule options) = Some 1"
    by (simp_all add: run_after_setup(2,3) [OF assms(1)])
qed

text \<open>
  C2. When the body of the task of a command throws, the task's \<open>catch\<close> block sets the
  flag of the context to false and sends one error line to the task's own renderer.
  Whatever the schedule, the concurrent list settles with the flag false, with that
  renderer holding the lines of the command followed by the error line, and with every
  renderer holding the whole output of its task; \<open>run\<close> then prints all the renderers
  before it reports the failure.
\<close>

theorem task_error_caught_locally:
  assumes "i < length commands"
    and "commands ! i = (taskName, command)"
    and "dispatch env ctx taskName command = (es, Inl error)"
  shows "task_actions (command_task env ctx taskName command) =
           map Do es @ [NotOk, Do (Render (Err (error_arg error)))]
       \<and> \<not> ok (fan_out env ctx schedule commands)
       \<and> renderers (fan_out env ctx schedule commands) ! i = rendered es @ [Err (error_arg error)]
       \<and> length (renderers (fan_out env ctx schedule commands)) = length commands
       \<and> (\<forall>j < length commands.
            renderers (fan_out env ctx schedule commands) ! j = task_lines env ctx (commands ! j))
       \<and> (setup_stages env options = Inr ctx \<longrightarrow>
          commands = ic_commands (transformProject (ctx_project ctx)) \<longrightarrow>
            printed (run env schedule options) = concat (map (task_lines env ctx) commands)
          \<and> reported (run env schedule options) =
              [Err (Inl ''Something went wrong - check the above report''), Emit [newline]]
          \<and> exit_code (run env schedule options) = Some 1)"
proof -
  note thrown = task_lines_thrown [OF assms(3)]
  have fails: "task_fails env ctx (commands ! i)"
    using thrown(2) assms(2) by simp
  have actions: "task_actions (command_task env ctx taskName command) =
           map Do es @ [NotOk, Do (Render (Err (error_arg error)))]"
    using assms(3) by (simp add: command_task_def)
  have own: "renderers (fan_out env ctx schedule commands) ! i =
               rendered es @ [Err (error_arg error)]"
    using fan_out_nth [OF assms(1)] thrown(1) assms(2) by simp
  have all: "\<forall>j < length commands.
            renderers (fan_out env ctx schedule commands) ! j = task_lines env ctx (commands ! j)"
    by (simp add: fan_out_nth)
  have n: "length (renderers (fan_out env ctx schedule commands)) = length commands"
    by (simp add: fan_out_renderers)
  from actions fan_out_fails [OF assms(1) fails] own n all
    run_after_setup(1) run_with_failure assms(1) fails
  show ?thesis by blast
qed

theorem task_error_caught_locally_witness:
  "dispatch ex_env ex_ctx ''diff'' (snd (ex_normalized ! 0)) =
     ([Render (Emit [newline @ '' command '', ''diff'']), Render (Emit [''Detected 1 change''])],
      Inl (Error ''Detected 1 breaking change''))
   \<and> \<not> ok (fan_out ex_env ex_ctx [3, 1, 0, 2, 2, 0, 7] ex_normalized)
   \<and> renderers (fan_out ex_env ex_ctx [3, 1, 0, 2, 2, 0, 7] ex_normalized) ! 0 =
       [Emit [newline @ '' command '', ''diff''], Emit [''Detected 1 change''],
        Err (Inl ''Detected 1 breaking change'')]
   \<and> renderers (fan_out ex_env ex_ctx [3, 1, 0, 2, 2, 0, 7] ex_normalized) ! 3 =
       [Emit [newline @ '' command '', ''similar''], Emit [newline @ ''No similar types found'']]
   \<and> printed (run ex_env [3, 1, 0, 2, 2, 0, 7] (ex_run_options None)) =
       [Emit [newline @ '' command '', ''diff''], Emit [''Detected 1 change''],
        Err (Inl ''Detected 1 breaking change''),
        Emit [newline @ '' command '', ''docs''], Err (Inl ''Documents are missing''),
        Emit [newline @ '' command '', ''lint''], Err (Inl ''Command lint not supported''),
        Emit [newline @ '' command '', ''similar''], Emit [newline @ ''No similar types found'']]
   \<and> exit_code (run ex_env [3, 1, 0, 2, 2, 0, 7] (ex_run_options None)) = Some 1"
proof -
  have i: "0 < length ex_normalized" and n: "length ex_normalized = 4"
    by (simp_all add: ex_normalized_def)
  have entry: "ex_normalized ! 0 = (''diff'', snd (ex_normalized ! 0))"
    by (simp add: ex_normalized_def)
  have lines: "task_lines ex_env ex_ctx (ex_normalized ! 3) =
       [Emit [newline @ '' command '', ''similar''], Emit [newline @ ''No similar types found'']]"
    using ex_task_lines by (simp add: ex_normalized_def)
  show ?thesis
    using task_error_caught_locally [OF i entry ex_dispatch_diff,
        of "[3, 1, 0, 2, 2, 0, 7]" "ex_run_options None"]
      ex_setup ex_transformProject ex_task_lines ex_dispatch_diff n lines
    by (simp add: rendered_def error_arg_def)
qed

text \<open>
  C8. A coverage or validate task whose context holds no documents and whose command
  gives no document pointer throws \<open>Documents are missing\<close> right after its banner. The
  error stays in the task: the flag of the context becomes false, the task's renderer
  holds the banner and the error line, every renderer holds the whole output of its
  task whatever the schedule, and \<open>run\<close> prints all of them.
\<close>

theorem missing_documents_fails_locally:
  assumes "i < length commands"
    and "commands ! i = (taskName, command)"
    and "isCoverageCommand command \<or> isValidateCommand command"
    and "ctx_documents ctx = None"
    and "cmd_documents command = None"
  shows "dispatch env ctx taskName command =
           ([Render (banner env taskName)], Inl (Error ''Documents are missing''))
       \<and> \<not> ok (fan_out env ctx schedule commands)
       \<and> renderers (fan_out env ctx schedule commands) ! i =
           [banner env taskName, Err (Inl ''Documents are missing'')]
       \<and> length (renderers (fan_out env ctx schedule commands)) = length commands
       \<and> (\<forall>j < length commands.
            renderers (fan_out env ctx schedule commands) ! j = task_lines env ctx (commands ! j))
       \<and> (setup_stages env options = Inr ctx \<longrightarrow>
          commands = ic_commands (transformProject (ctx_project ctx)) \<longrightarrow>
            printed (run env schedule options) = concat (map (task_lines env ctx) commands)
          \<and> exit_code (run env schedule options) = Some 1)"
proof -
  have missing: "dispatch env ctx taskName command =
           ([Render (banner env taskName)], Inl (Error ''Documents are missing''))"
    using assms(3,4,5) by (intro dispatch_missing_documents) simp_all
  note thrown = task_lines_thrown [OF missing]
  have fails: "task_fails env ctx (commands ! i)"
    using thrown(2) assms(2) by simp
  have own: "renderers (fan_out env ctx schedule commands) ! i =
           [banner env taskName, Err (Inl ''Documents are missing'')]"
    using fan_out_nth [OF assms(1)] thrown(1) assms(2)
    by (simp add: rendered_def error_arg_def)
  have all: "\<forall>j < length commands.
            renderers (fan_out env ctx schedule commands) ! j = task_lines env ctx (commands ! j)"
    by (simp add: fan_out_nth)
  have n: "length (renderers (fan_out env ctx schedule commands)) = length commands"
    by (simp add: fan_out_renderers)
  from missing fan_out_fails [OF assms(1) fails] own n all
    run_after_setup(1) run_with_failure(2) assms(1) fails
  show ?thesis by blast
qed

theorem missing_documents_fails_locally_witness:
  "isValidateCommand (snd (ex_normalized ! 1))
   \<and> ctx_documents ex_ctx = None
   \<and> cmd_documents (snd (ex_normalized ! 1)) = None
   \<and> \<not> ok (fan_out ex_env ex_ctx [3, 1, 0, 2, 2, 0, 7] ex_normalized)
   \<and> renderers (fan_out ex_env ex_ctx [3, 1, 0, 2, 2, 0, 7] ex_normalized) ! 1 =
       [Emit [newline @ '' command '', ''docs''], Err (Inl ''Documents are missing'')]
   \<and> renderers (fan_out ex_env ex_ctx [3, 1, 0, 2, 2, 0, 7] ex_normalized) ! 3 =
       [Emit [newline @ '' command '', ''similar''], Emit [newline @ ''No similar types found'']]
   \<and> printed (run ex_env [3, 1, 0, 2, 2, 0, 7] (ex_run_options None)) =
       [Emit [newline @ '' command '', ''diff''], Emit [''Detected 1 change''],
        Err (Inl ''Detected 1 breaking change''),
        Emit [newline @ '' command '', ''docs''], Err (Inl ''Documents are missing''),
        Emit [newline @ '' command '', ''lint''], Err (Inl ''Command lint not supported''),
        Emit [newline @ '' command '', ''similar''], Emit [newline @ ''No similar types found'']]
   \<and> exit_code (run ex_env [3, 1, 0, 2, 2, 0, 7] (ex_run_options None)) = Some 1"
proof -
  have i: "1 < length ex_normalized" and n: "length ex_normalized = 4"
    by (simp_all add: ex_normalized_def)
  have entry: "ex_normalized ! 1 = (''docs'', snd (ex_normalized ! 1))"
    by (simp add: ex_normalized_def)
  have kind: "isCoverageCommand (snd (ex_normalized ! 1)) \<or> isValidateCommand (snd (ex_normalized ! 1))"
    "isValidateCommand (snd (ex_normalized ! 1))"
    by (simp_all add: ex_normalized_def isValidateCommand_def no_command_def)
  have none: "ctx_documents ex_ctx = None" "cmd_documents (snd (ex_normalized ! 1)) = None"
    by (simp_all add: ex_ctx_def ex_normalized_def no_command_def)
  have lines: "task_lines ex_env ex_ctx (ex_normalized ! 3) =
       [Emit [newline @ '' command '', ''similar''], Emit [newline @ ''No similar types found'']]"
    using ex_task_lines by (simp add: ex_normalized_def)
  show ?thesis
    using missing_documents_fails_locally [OF i entry kind(1) none,
        of ex_env "[3, 1, 0, 2, 2, 0, 7]" "ex_run_options None"]
      ex_setup ex_transformProject ex_task_lines n lines kind(2) none ex_banner
    by simp
qed

text \<open>
  What the loop of \<open>transformProject\<close> makes of a configuration that has no label
  \<open>__proto__\<close>: one entry for each entry of the configuration, in the same order.
\<close>

lemma fold_obj_prototype_none:
  "''__proto__'' \<notin> fst ` set xs \<Longrightarrow>
   fold (\<lambda>(name, config) proto. obj_prototype name (g name config) proto) xs proto = proto"
  by (induction xs arbitrary: proto) (auto simp: obj_prototype_def)

lemma transformProject_own_labels:
  assumes "distinct (map fst (proj_extension p ''inspector''))"
    and "''__proto__'' \<notin> fst ` set (proj_extension p ''inspector'')"
  shows "ic_commands (transformProject p) =
           map (\<lambda>(name, config). (name, transformCommand name config))
             (proj_extension p ''inspector'')"
proof -
  have keep: "filter (\<lambda>(key, v). key \<noteq> ''__proto__'') (proj_extension p ''inspector'') =
                proj_extension p ''inspector''"
    using assms(2) by (force simp: filter_id_conv)
  have own: "fold (\<lambda>(name, config) commands. obj_set name (transformCommand name config) commands)
               (proj_extension p ''inspector'') [] =
             map (\<lambda>(name, config). (name, transformCommand name config))
               (proj_extension p ''inspector'')"
    using fold_obj_set_distinct [OF assms(1), of "[]" transformCommand] by (simp add: keep)
  show ?thesis
    by (simp add: transformProject_def own fold_obj_prototype_none [OF assms(2)]
        inherited_entries_def for_in_def)
qed

text \<open>
  A command whose tag is none of the four command names is the entry of the
  configuration unchanged, when the label of the entry is not \<open>__proto__\<close>. Its task
  throws \<open>Command ... not supported\<close> with the tag in the message, right after its banner;
  the error stays in the task: the flag of the context becomes false, the task's
  renderer holds the banner and the error line, every renderer holds the whole output
  of its task whatever the schedule, and \<open>run\<close> prints all of them.
\<close>

lemma unsupported_entry_passed_through:
  assumes "distinct (map fst (proj_extension p ''inspector''))"
    and "''__proto__'' \<notin> fst ` set (proj_extension p ''inspector'')"
    and "i < length (proj_extension p ''inspector'')"
    and "proj_extension p ''inspector'' ! i = (name, config)"
    and "cmd_command (transformCommand name config) \<notin> Some ` set supportedCommands"
  shows "i < length (ic_commands (transformProject p))"
    and "ic_commands (transformProject p) ! i = (name, config)"
  using assms transformCommand_unknown [OF assms(5)]
  by (simp_all add: transformProject_own_labels)

lemma unsupported_command_task:
  assumes "cmd_command (transformCommand name config) \<notin> Some ` set supportedCommands"
    and "i < length commands"
    and "commands ! i = (taskName, transformCommand name config)"
  shows "transformCommand name config = config
       \<and> dispatch env ctx taskName (transformCommand name config) =
           ([Render (banner env taskName)],
            Inl (Error (''Command '' @ template (cmd_command config) @ '' not supported'')))
       \<and> (\<forall>kind. cmd_command config = Some kind \<longrightarrow>
            renderers (fan_out env ctx schedule commands) ! i =
              [banner env taskName, Err (Inl (''Command '' @ kind @ '' not supported''))])
       \<and> \<not> ok (fan_out env ctx schedule commands)
       \<and> length (renderers (fan_out env ctx schedule commands)) = length commands
       \<and> (\<forall>j < length commands.
            renderers (fan_out env ctx schedule commands) ! j = task_lines env ctx (commands ! j))
       \<and> (setup_stages env options = Inr ctx \<longrightarrow>
          commands = ic_commands (transformProject (ctx_project ctx)) \<longrightarrow>
            printed (run env schedule options) = concat (map (task_lines env ctx) commands)
          \<and> exit_code (run env schedule options) = Some 1)"
proof -
  have same: "transformCommand name config = config"
    using assms(1) by (rule transformCommand_unknown)
  have unknown: "cmd_command config \<notin> Some ` set supportedCommands"
    using assms(1) same by simp
  have thrown: "dispatch env ctx taskName config =
           ([Render (banner env taskName)],
            Inl (Error (''Command '' @ template (cmd_command config) @ '' not supported'')))"
    using unknown by (rule dispatch_unsupported)
  note lines = task_lines_thrown [OF thrown]
  have fails: "task_fails env ctx (commands ! i)"
    using lines(2) assms(3) same by simp
  have own: "renderers (fan_out env ctx schedule commands) ! i =
      [banner env taskName,
       Err (Inl (''Command '' @ template (cmd_command config) @ '' not supported''))]"
    using fan_out_nth [OF assms(2)] lines(1) assms(3) same
    by (simp add: rendered_def error_arg_def)
  have named: "\<forall>kind. cmd_command config = Some kind \<longrightarrow>
            renderers (fan_out env ctx schedule commands) ! i =
              [banner env taskName, Err (Inl (''Command '' @ kind @ '' not supported''))]"
    using own by (simp add: template_def)
  have all: "\<forall>j < length commands.
            renderers (fan_out env ctx schedule commands) ! j = task_lines env ctx (commands ! j)"
    by (simp add: fan_out_nth)
  have n: "length (renderers (fan_out env ctx schedule commands)) = length commands"
    by (simp add: fan_out_renderers)
  from same thrown named fan_out_fails [OF assms(2) fails] n all
    run_after_setup(1) run_with_failure(2) assms(2) fails
  show ?thesis by (simp only: same) blast
qed

text \<open>
  C6 does not hold of the code. In the configuration file whose one entry has the label
  \<open>__proto__\<close> and the body \<open>{command: lint}\<close>, the tag is none of the four command names.
  \<open>transformProject\<close> does not pass the entry through: the assignment of line 281 makes
  the body the prototype of the collection, which gets no entry \<open>__proto__\<close>. The loop of
  \<open>run\<close> then finds the inherited key \<open>command\<close>, whose value is the string \<open>lint\<close>, and
  creates the task \<open>command - undefined\<close>; its error line is
  \<open>Command undefined not supported\<close>, which does not name the kind \<open>lint\<close>.
\<close>

theorem unsupported_command_under_proto_label:
  "proj_extension ex_lint_project ''inspector'' =
     [(''__proto__'', no_command\<lparr>cmd_command := Some ''lint''\<rparr>)]
   \<and> ic_commands (transformProject ex_lint_project) = [(''command'', no_command)]
   \<and> (case setup_stages ex_lint_env (ex_run_options None) of
         Inl error \<Rightarrow> None
       | Inr ctx \<Rightarrow> Some (map fst (ic_commands (transformProject (ctx_project ctx)))))
       = Some [''command'']
   \<and> task_title (command_task ex_lint_env ex_ctx ''command'' no_command) = ''command - undefined''
   \<and> printed (run ex_lint_env [] (ex_run_options None)) =
       [Emit [newline @ '' command '', ''command''], Err (Inl ''Command undefined not supported'')]
   \<and> exit_code (run ex_lint_env [] (ex_run_options None)) = Some 1"
proof -
  define config where
    "config = \<lparr> cfg_filepath = ''/repo/.graphqlrc.json'', cfg_getDefault = Inr ex_lint_project,
                cfg_getProject = (\<lambda>name :: string option. Inr ex_lint_project) \<rparr>"
  define ctx where
    "ctx = \<lparr> ctx_config = config, ctx_project = ex_lint_project,
             ctx_schema = ex_schema, ctx_documents = None \<rparr>"
  have raw: "proj_extension ex_lint_project ''inspector'' =
     [(''__proto__'', no_command\<lparr>cmd_command := Some ''lint''\<rparr>)]"
    by (simp add: ex_lint_project_def)
  have keys: "remdups (filter (has_field (no_command\<lparr>cmd_command := Some ''lint''\<rparr>))
                (proj_keys ex_lint_project (no_command\<lparr>cmd_command := Some ''lint''\<rparr>))) =
              [''command'']"
    by (simp add: ex_lint_project_def ex_project_def ex_keys_def has_field_def
        command_fields_def no_command_def)
  have normalized: "ic_commands (transformProject ex_lint_project) = [(''command'', no_command)]"
    by (simp add: transformProject_def raw obj_set_def obj_prototype_def transformCommand_def
        isCommandName_def supportedCommands_def inherited_entries_def for_in_def keys)
  have loaded: "findAndLoadConfig ex_lint_env None = Inr config"
    by (simp add: findAndLoadConfig_def ex_lint_env_def config_def)
  have project: "picking_project config (ex_run_options None) = Inr ex_lint_project"
    by (simp add: picking_project_def ex_run_options_def config_def)
  have extension: "checking_extension config ex_lint_project = Inr ()"
    by (simp add: checking_extension_def ex_lint_project_def ex_project_def)
  have schema: "proj_getSchema ex_lint_project = Inr ex_schema"
    by (simp add: ex_lint_project_def ex_project_def)
  have documents: "loading_documents ex_lint_project = Inr None"
    by (simp add: loading_documents_def ex_lint_project_def ex_project_def)
  have options: "run_config (ex_run_options None) = None"
    by (simp add: ex_run_options_def)
  have stages: "setup_stages ex_lint_env (ex_run_options None) = Inr ctx"
    by (simp add: setup_stages_def options loaded project extension schema documents ctx_def)
  have project_of: "ctx_project ctx = ex_lint_project"
    by (simp add: ctx_def)
  have bullet: "banner ex_lint_env ''command'' = Emit [newline @ '' command '', ''command'']"
    by (simp add: banner_def ex_lint_env_def ex_env_def)
  have unknown: "cmd_command no_command \<notin> Some ` set supportedCommands"
    by (simp add: no_command_def)
  have lines: "task_lines ex_lint_env ctx (''command'', no_command) =
      [Emit [newline @ '' command '', ''command''], Err (Inl ''Command undefined not supported'')]"
    using task_lines_thrown(1) [OF dispatch_unsupported [OF unknown, of ex_lint_env ctx "''command''"]]
    by (simp add: rendered_def error_arg_def template_def no_command_def bullet)
  have fails: "task_fails ex_lint_env ctx (''command'', no_command)"
    using task_lines_thrown(2) [OF dispatch_unsupported [OF unknown, of ex_lint_env ctx "''command''"]] .
  have title: "task_title (command_task ex_lint_env ex_ctx ''command'' no_command) =
      ''command - undefined''"
    by (simp add: command_task_def template_def no_command_def)
  have printed: "printed (run ex_lint_env [] (ex_run_options None)) =
       [Emit [newline @ '' command '', ''command''], Err (Inl ''Command undefined not supported'')]"
    by (simp add: run_after_setup(1) [OF stages] project_of normalized lines)
  have code: "exit_code (run ex_lint_env [] (ex_run_options None)) = Some 1"
    using fails by (simp add: run_after_setup(2) [OF stages] project_of normalized)
  from raw normalized title printed code show ?thesis
    by (simp add: stages project_of)
qed

lemma picking_project_with_name:
  "truthy_string (run_project options) \<Longrightarrow> picking_project config options = cfg_getDefault config"
  by (simp add: picking_project_def)

lemma picking_project_without_name:
  "\<not> truthy_string (run_project options) \<Longrightarrow>
   picking_project config options = cfg_getProject config (run_project options)"
  by (simp add: picking_project_def)

text \<open>
  C1 does not hold of the code. With the project name \<open>api\<close>, the stage
  \<open>Picking project\<close> stores the default project, not the project \<open>api\<close> that
  \<open>getProject\<close> gives for that name: the condition of the stage is inverted.
\<close>

theorem picking_project_named_stores_default:
  "picking_project ex_config (ex_run_options (Some ''api'')) = Inr (ex_project ''default'')
   \<and> cfg_getProject ex_config (Some ''api'') = Inr (ex_project ''api'')
   \<and> ex_project ''api'' \<noteq> ex_project ''default''
   \<and> (case setup_stages ex_env (ex_run_options (Some ''api'')) of
         Inl error \<Rightarrow> None
       | Inr ctx \<Rightarrow> Some (proj_name (ctx_project ctx))) = Some ''default''"
proof -
  have config: "findAndLoadConfig ex_env None = Inr ex_config"
    by (simp add: findAndLoadConfig_def ex_env_def)
  have project: "picking_project ex_config (ex_run_options (Some ''api'')) = Inr (ex_project ''default'')"
    by (simp add: picking_project_def ex_run_options_def ex_config_def)
  have named: "cfg_getProject ex_config (Some ''api'') = Inr (ex_project ''api'')"
    by (simp add: ex_config_def)
  have "proj_name (ex_project ''api'') \<noteq> proj_name (ex_project ''default'')"
    by (simp add: ex_project_def)
  then have differ: "ex_project ''api'' \<noteq> ex_project ''default''"
    by auto
  have extension: "checking_extension ex_config (ex_project ''default'') = Inr ()"
    by (simp add: checking_extension_def ex_project_def)
  have schema: "proj_getSchema (ex_project ''default'') = Inr ex_schema"
    by (simp add: ex_project_def)
  have documents: "loading_documents (ex_project ''default'') = Inr None"
    by (simp add: loading_documents_def ex_project_def)
  have options: "run_config (ex_run_options (Some ''api'')) = None"
    by (simp add: ex_run_options_def)
  have name: "proj_name (ex_project ''default'') = ''default''"
    by (simp add: ex_project_def)
  have stages: "(case setup_stages ex_env (ex_run_options (Some ''api'')) of
         Inl error \<Rightarrow> None
       | Inr ctx \<Rightarrow> Some (proj_name (ctx_project ctx))) = Some ''default''"
    by (simp add: setup_stages_def options config project extension schema documents name)
  from project named differ stages show ?thesis
    by simp
qed

end
